theory Spec2Isabelle
  imports Complex_Main
begin

section \<open>Tremor filter: shared numeric helpers\<close>

text \<open>
  The Python sources compute with unbounded integers (cursor coordinates, deltas) and with
  double-precision floats (magnitudes, timestamps, thresholds, the filtered position).
  Integers are modelled as \<open>int\<close>. Floats are modelled as \<open>real\<close>, so a statement about them
  is about the exact arithmetic the floats approximate; the one exception is the repeated
  smoothing step, where the rounding of the doubles decides the outcome and is modelled.
\<close>

text \<open>\<^verbatim>\<open>calculate_magnitude(x, y)\<close>: \<^verbatim>\<open>np.sqrt(x**2 + y**2)\<close>, always called on integers.\<close>

definition calculate_magnitude :: "int \<Rightarrow> int \<Rightarrow> real" where
  "calculate_magnitude x y = sqrt (of_int (x ^ 2 + y ^ 2))"

text \<open>
  \<^verbatim>\<open>np.mean\<close> and \<^verbatim>\<open>np.std\<close> (population standard deviation). The sources call them on
  non-empty lists only (numpy returns nan on an empty one; the quotient below is 0 there).
\<close>

definition np_mean :: "real list \<Rightarrow> real" where
  "np_mean xs = sum_list xs / real (length xs)"

definition np_std :: "real list \<Rightarrow> real" where
  "np_std xs = sqrt (np_mean (map (\<lambda>x. (x - np_mean xs) ^ 2) xs))"

text \<open>
  \<^verbatim>\<open>deque(maxlen=n).append(x)\<close>: append on the right, dropping the oldest entry when the
  deque is full; with \<open>n = 0\<close> the deque stays empty.
\<close>

definition deque_append :: "nat \<Rightarrow> 'a list \<Rightarrow> 'a \<Rightarrow> 'a list" where
  "deque_append maxlen xs x =
     (if length xs < maxlen then xs @ [x]
      else if maxlen = 0 then xs
      else tl xs @ [x])"

text \<open>Python's \<^verbatim>\<open>int(f)\<close> on a float: truncation toward zero.\<close>

definition py_int :: "real \<Rightarrow> int" where
  "py_int r = (if 0 \<le> r then \<lfloor>r\<rfloor> else \<lceil>r\<rceil>)"

text \<open>\<^verbatim>\<open>"+".join(names)\<close>.\<close>

fun join_plus :: "string list \<Rightarrow> string" where
  "join_plus [] = []"
| "join_plus [a] = a"
| "join_plus (a # b # rest) = a @ ''+'' @ join_plus (b # rest)"

section \<open>The enhanced variant (\<^verbatim>\<open>enhanced_tremor_filter.py\<close>)\<close>

subsection \<open>Settings and state\<close>

text \<open>
  The module-level settings that \<^verbatim>\<open>main\<close> overwrites from the command line.
  \<^verbatim>\<open>FREQUENCY_WINDOW\<close> is never assigned after the module is loaded, and the three deques are
  created at load time with \<^verbatim>\<open>maxlen=SAMPLE_SIZE\<close>, that is 25, before \<^verbatim>\<open>main\<close> can change
  \<^verbatim>\<open>SAMPLE_SIZE\<close>: both are constants.
\<close>

record config =
  SAMPLE_SIZE :: int
  SHAKE_THRESHOLD :: real
  SMOOTHING_FACTOR :: real
  MIN_TREMOR_FREQUENCY :: real
  MAX_TREMOR_FREQUENCY :: real
  DIRECTION_CHANGE_THRESHOLD :: real
  STD_DEV_THRESHOLD :: real
  JITTER_THRESHOLD :: real
  ADAPTIVE_SMOOTHING :: bool

definition default_config :: config where
  "default_config =
     \<lparr> SAMPLE_SIZE = 25, SHAKE_THRESHOLD = 17 / 10, SMOOTHING_FACTOR = 4 / 10,
       MIN_TREMOR_FREQUENCY = 3, MAX_TREMOR_FREQUENCY = 12,
       DIRECTION_CHANGE_THRESHOLD = 4 / 10, STD_DEV_THRESHOLD = 75 / 100,
       JITTER_THRESHOLD = 2, ADAPTIVE_SMOOTHING = True \<rparr>"

definition FREQUENCY_WINDOW :: nat where
  "FREQUENCY_WINDOW = 15"

definition HISTORY_MAXLEN :: nat where
  "HISTORY_MAXLEN = 25"

record state =
  position_history :: "(int \<times> int) list"
  delta_history :: "(int \<times> int) list"
  timestamp_history :: "real list"
  tremor_detected :: bool
  tremor_type :: string
  tremor_intensity :: real
  stabilization_active :: bool
  last_x :: real
  last_y :: real
  last_real_x :: int
  last_real_y :: int

definition initial_state :: state where
  "initial_state =
     \<lparr> position_history = [], delta_history = [], timestamp_history = [],
       tremor_detected = False, tremor_type = ''None'', tremor_intensity = 0,
       stabilization_active = True, last_x = 0, last_y = 0,
       last_real_x = 0, last_real_y = 0 \<rparr>"

subsection \<open>Statistics\<close>

text \<open>The list comprehension \<^verbatim>\<open>[ts[i] - ts[i-1] for i in range(1, len(ts))]\<close>.\<close>

fun intervals_of :: "real list \<Rightarrow> real list" where
  "intervals_of (a # b # rest) = (b - a) # intervals_of (b # rest)"
| "intervals_of _ = []"

text \<open>
  \<^verbatim>\<open>calculate_frequency()\<close>, reading the global \<^verbatim>\<open>timestamp_history\<close>.
  \<^verbatim>\<open>list(ts)[-FREQUENCY_WINDOW:]\<close> is the last 15 entries (the list is at least that long).
\<close>

definition calculate_frequency :: "real list \<Rightarrow> real" where
  "calculate_frequency ts =
     (if length ts < FREQUENCY_WINDOW then 0
      else
        let recent_times = drop (length ts - FREQUENCY_WINDOW) ts;
            intervals = intervals_of recent_times
        in if intervals = [] then 0
           else
             let avg_interval = np_mean intervals
             in if avg_interval = 0 then 0 else 1 / avg_interval)"

text \<open>The two loops of \<^verbatim>\<open>calculate_jitter\<close>: first and second differences.\<close>

fun first_derivs :: "(int \<times> int) list \<Rightarrow> (int \<times> int) list" where
  "first_derivs (p # q # rest) = (fst q - fst p, snd q - snd p) # first_derivs (q # rest)"
| "first_derivs _ = []"

fun second_derivs :: "(int \<times> int) list \<Rightarrow> real list" where
  "second_derivs (p # q # rest) =
     calculate_magnitude (fst q - fst p) (snd q - snd p) # second_derivs (q # rest)"
| "second_derivs _ = []"

definition calculate_jitter :: "(int \<times> int) list \<Rightarrow> real" where
  "calculate_jitter positions =
     (if length positions < 3 then 0
      else
        let sd = second_derivs (first_derivs positions)
        in if sd \<noteq> [] then np_mean sd else 0)"

text \<open>
  The direction loop of the enhanced \<^verbatim>\<open>detect_tremor\<close>: for each consecutive pair of
  deltas with both vectors non-zero and a non-zero product of magnitudes, the cosine of the
  angle between them.
\<close>

fun directions :: "(int \<times> int) list \<Rightarrow> real list" where
  "directions (p # c # rest) =
     (if (fst p \<noteq> 0 \<or> snd p \<noteq> 0) \<and> (fst c \<noteq> 0 \<or> snd c \<noteq> 0) then
        (let dot_product = fst p * fst c + snd p * snd c;
             magnitude_product =
               calculate_magnitude (fst p) (snd p) * calculate_magnitude (fst c) (snd c)
         in if magnitude_product \<noteq> 0 then [of_int dot_product / magnitude_product] else [])
      else [])
     @ directions (c # rest)"
| "directions _ = []"

definition direction_change_ratio :: "(int \<times> int) list \<Rightarrow> real" where
  "direction_change_ratio deltas =
     (let ds = directions deltas;
          direction_changes = length (filter (\<lambda>d. d < 0) ds)
      in if ds \<noteq> [] then real direction_changes / real (length ds) else 0)"

subsection \<open>The classifier\<close>

text \<open>The three \<^verbatim>\<open>append\<close> calls at the top of \<^verbatim>\<open>detect_tremor\<close>.\<close>

definition push_sample :: "int \<Rightarrow> int \<Rightarrow> int \<Rightarrow> int \<Rightarrow> real \<Rightarrow> state \<Rightarrow> state" where
  "push_sample dx dy current_x current_y now s =
     s\<lparr> delta_history := deque_append HISTORY_MAXLEN (delta_history s) (dx, dy),
        position_history := deque_append HISTORY_MAXLEN (position_history s) (current_x, current_y),
        timestamp_history := deque_append HISTORY_MAXLEN (timestamp_history s) now \<rparr>"

text \<open>
  The dictionary \<^verbatim>\<open>tremor_scores\<close>, in insertion order, computed from the window after
  the push: one entry per criterion, 1 when it fires and 0 otherwise.
\<close>

definition tremor_scores :: "config \<Rightarrow> int \<Rightarrow> int \<Rightarrow> state \<Rightarrow> (string \<times> real) list" where
  "tremor_scores cfg dx dy s =
     (let current_magnitude = calculate_magnitude dx dy;
          deltas = delta_history s;
          magnitudes = map (\<lambda>d. calculate_magnitude (fst d) (snd d)) deltas;
          avg_magnitude = np_mean magnitudes;
          std_magnitude = np_std magnitudes;
          frequency = calculate_frequency (timestamp_history s);
          jitter = calculate_jitter (position_history s);
          cv = (if avg_magnitude > 0 then std_magnitude / avg_magnitude else 0);
          frequency_tremor =
            (MIN_TREMOR_FREQUENCY cfg \<le> frequency \<and> frequency \<le> MAX_TREMOR_FREQUENCY cfg);
          directional_tremor =
            (direction_change_ratio deltas > DIRECTION_CHANGE_THRESHOLD cfg);
          magnitude_tremor = (current_magnitude > avg_magnitude * SHAKE_THRESHOLD cfg);
          jitter_tremor = (jitter > JITTER_THRESHOLD cfg);
          variance_tremor = (cv > STD_DEV_THRESHOLD cfg)
      in [(''Frequency'', if frequency_tremor then 1 else 0),
          (''Directional'', if directional_tremor then 1 else 0),
          (''Magnitude'', if magnitude_tremor then 1 else 0),
          (''Jitter'', if jitter_tremor then 1 else 0),
          (''Variance'', if variance_tremor then 1 else 0)])"

text \<open>
  \<^verbatim>\<open>detect_tremor(dx, dy, current_x, current_y)\<close>. The clock read \<^verbatim>\<open>time.time()\<close> is the
  argument \<open>now\<close>. The result is the returned flag and the updated globals; the global
  \<^verbatim>\<open>tremor_detected\<close> is not written here (the name is local to the function).
\<close>

text \<open>The list \<^verbatim>\<open>detected_types\<close>: the names of the entries with a positive score.\<close>

definition detected_types :: "(string \<times> real) list \<Rightarrow> string list" where
  "detected_types scores = map fst (filter (\<lambda>tv. snd tv > 0) scores)"

definition detect_tremor ::
    "config \<Rightarrow> int \<Rightarrow> int \<Rightarrow> int \<Rightarrow> int \<Rightarrow> real \<Rightarrow> state \<Rightarrow> bool \<times> state" where
  "detect_tremor cfg dx dy current_x current_y now s =
     (let s1 = push_sample dx dy current_x current_y now s
      in if int (length (delta_history s1)) < SAMPLE_SIZE cfg div 2 then (False, s1)
         else
           let scores = tremor_scores cfg dx dy s1;
               tremor_score = sum_list (map snd scores) / 5;
               detected = (tremor_score > 3 / 10)
           in (detected,
               s1\<lparr> tremor_intensity := tremor_score,
                   tremor_type :=
                     (if detected then join_plus (detected_types scores) else ''None'') \<rparr>))"

subsection \<open>The smoothing filter\<close>

text \<open>
  \<^verbatim>\<open>apply_adaptive_smoothing(x, y)\<close>: the blend factor, the exponential blend written
  back to \<^verbatim>\<open>last_x\<close>, \<^verbatim>\<open>last_y\<close>, and the returned pair, truncated by \<^verbatim>\<open>int()\<close>.
\<close>

definition adaptive_factor :: "config \<Rightarrow> state \<Rightarrow> real" where
  "adaptive_factor cfg s =
     (if ADAPTIVE_SMOOTHING cfg
      then max (1 / 10) (SMOOTHING_FACTOR cfg * (1 - tremor_intensity s))
      else SMOOTHING_FACTOR cfg)"

definition apply_adaptive_smoothing ::
    "config \<Rightarrow> int \<Rightarrow> int \<Rightarrow> state \<Rightarrow> (int \<times> int) \<times> state" where
  "apply_adaptive_smoothing cfg x y s =
     (let a = adaptive_factor cfg s;
          filtered_x = a * of_int x + (1 - a) * last_x s;
          filtered_y = a * of_int y + (1 - a) * last_y s
      in ((py_int filtered_x, py_int filtered_y),
          s\<lparr> last_x := filtered_x, last_y := filtered_y \<rparr>))"

subsection \<open>The controller\<close>

text \<open>
  \<^verbatim>\<open>toggle_stabilization()\<close> flips the flag and nothing else (the message it prints is
  not modelled).
\<close>

definition toggle_stabilization :: "state \<Rightarrow> state" where
  "toggle_stabilization s = s\<lparr> stabilization_active := \<not> stabilization_active s \<rparr>"

text \<open>
  The prologue of \<^verbatim>\<open>mouse_monitor\<close>: \<^verbatim>\<open>last_real_x, last_real_y\<close> are declared global and
  take the cursor position; \<^verbatim>\<open>last_x, last_y\<close> are not declared global there, so that
  assignment binds two locals and the filter state keeps its value.
\<close>

definition monitor_init :: "int \<Rightarrow> int \<Rightarrow> state \<Rightarrow> state" where
  "monitor_init cx cy s = s\<lparr> last_real_x := cx, last_real_y := cy \<rparr>"

text \<open>
  One iteration of the polling loop of \<^verbatim>\<open>mouse_monitor\<close>. The cursor position read by
  \<^verbatim>\<open>get_cursor_pos()\<close> and the clock are inputs; the second component of the result is the
  position passed to \<^verbatim>\<open>set_cursor_pos\<close>, if any.
\<close>

definition monitor_step ::
    "config \<Rightarrow> int \<Rightarrow> int \<Rightarrow> real \<Rightarrow> state \<Rightarrow> state \<times> (int \<times> int) option" where
  "monitor_step cfg current_x current_y now s =
     (let dx = current_x - last_real_x s;
          dy = current_y - last_real_y s;
          s1 = s\<lparr> last_real_x := current_x, last_real_y := current_y \<rparr>
      in if (dx \<noteq> 0 \<or> dy \<noteq> 0) \<and> stabilization_active s1 then
           (let (d, s2) = detect_tremor cfg dx dy current_x current_y now s1;
                s3 = s2\<lparr> tremor_detected := d \<rparr>
            in if d then
                 (let (new, s4) = apply_adaptive_smoothing cfg current_x current_y s3
                  in (s4\<lparr> last_real_x := fst new, last_real_y := snd new \<rparr>, Some new))
               else (s3, None))
         else (s1, None))"

text \<open>What reaches the controller: a poll of the cursor, or the \<^verbatim>\<open>s\<close> command.\<close>

datatype event = Poll int int real | Toggle

fun handle_event :: "config \<Rightarrow> event \<Rightarrow> state \<Rightarrow> state \<times> (int \<times> int) option" where
  "handle_event cfg (Poll x y now) s = monitor_step cfg x y now s"
| "handle_event cfg Toggle s = (toggle_stabilization s, None)"

text \<open>A run of events: the final state and the corrections emitted, oldest first.\<close>

fun run_events :: "config \<Rightarrow> event list \<Rightarrow> state \<Rightarrow> state \<times> (int \<times> int) option list" where
  "run_events cfg [] s = (s, [])"
| "run_events cfg (e # es) s =
     (let (s1, out) = handle_event cfg e s;
          (s2, outs) = run_events cfg es s1
      in (s2, out # outs))"

text \<open>A run of classifier calls alone, each sample being \<open>(dx, dy, x, y, now)\<close>.\<close>

type_synonym sample = "int \<times> int \<times> int \<times> int \<times> real"

definition sample_delta :: "sample \<Rightarrow> int \<times> int" where
  "sample_delta smp = (fst smp, fst (snd smp))"

definition sample_position :: "sample \<Rightarrow> int \<times> int" where
  "sample_position smp = (fst (snd (snd smp)), fst (snd (snd (snd smp))))"

definition sample_time :: "sample \<Rightarrow> real" where
  "sample_time smp = snd (snd (snd (snd smp)))"

fun feed_sample :: "config \<Rightarrow> sample \<Rightarrow> state \<Rightarrow> bool \<times> state" where
  "feed_sample cfg (dx, dy, x, y, now) s = detect_tremor cfg dx dy x y now s"

fun feed_all :: "config \<Rightarrow> sample list \<Rightarrow> state \<Rightarrow> state" where
  "feed_all cfg [] s = s"
| "feed_all cfg (smp # rest) s = feed_all cfg rest (snd (feed_sample cfg smp s))"

text \<open>The samples a window of capacity \<^verbatim>\<open>maxlen\<close> still holds: the most recent ones.\<close>

definition window_of :: "sample list \<Rightarrow> sample list" where
  "window_of ss = drop (length ss - HISTORY_MAXLEN) ss"

section \<open>The smoothing step on doubles\<close>

text \<open>
  The blend \<^verbatim>\<open>factor * x + (1 - factor) * last\<close> is the body of \<^verbatim>\<open>apply_smoothing\<close> in
  \<^verbatim>\<open>Joystick/mouse_filter.py\<close> (with \<^verbatim>\<open>SMOOTHING_FACTOR\<close>) and of lines 196 to 204 of
  \<^verbatim>\<open>apply_adaptive_smoothing\<close> (with \<^verbatim>\<open>adaptive_factor\<close>). Python evaluates it on IEEE 754
  binary64 values, rounding after each operation.
\<close>

text \<open>Rounding a real to the nearest integer, a tie going to the even one.\<close>

definition round_half_even :: "real \<Rightarrow> int" where
  "round_half_even t =
     (let f = \<lfloor>t\<rfloor>
      in if t - of_int f < 1 / 2 then f
         else if 1 / 2 < t - of_int f then f + 1
         else if even f then f else f + 1)"

text \<open>
  The double nearest to a real, ties to even: the significand has 53 bits, so the spacing in
  the binade of \<open>r\<close> is \<open>2 ^ (e - 52)\<close>, and the exponent does not go below -1022, where the
  subnormal spacing \<open>2 ^ -1074\<close> begins. The value is right for reals below the largest
  double; the statements below stay far from it.
\<close>

definition double_round :: "real \<Rightarrow> real" where
  "double_round r =
     (if r = 0 then 0
      else
        let e = max \<lfloor>log 2 \<bar>r\<bar>\<rfloor> (- 1022);
            q = 2 powr (of_int e - 52)
        in of_int (round_half_even (r / q)) * q)"

text \<open>
  The blend on doubles: the integer \<open>x\<close> is converted, and the two products, the
  difference \<^verbatim>\<open>1 - factor\<close> and the sum are each rounded.
\<close>

definition blend_d :: "real \<Rightarrow> int \<Rightarrow> real \<Rightarrow> real" where
  "blend_d a x prev =
     double_round (double_round (a * double_round (of_int x))
                   + double_round (double_round (1 - a) * prev))"

text \<open>
  One smoothing step on the pair \<^verbatim>\<open>(last_x, last_y)\<close>: the integers handed back and the
  new pair; and the step repeated \<open>n\<close> times with the same input.
\<close>

definition apply_smoothing_d ::
    "real \<Rightarrow> int \<Rightarrow> int \<Rightarrow> real \<times> real \<Rightarrow> (int \<times> int) \<times> (real \<times> real)" where
  "apply_smoothing_d factor x y prev =
     (let filtered_x = blend_d factor x (fst prev);
          filtered_y = blend_d factor y (snd prev)
      in ((py_int filtered_x, py_int filtered_y), (filtered_x, filtered_y)))"

fun apply_smoothing_d_n :: "real \<Rightarrow> int \<Rightarrow> int \<Rightarrow> nat \<Rightarrow> real \<times> real \<Rightarrow> real \<times> real" where
  "apply_smoothing_d_n factor x y 0 prev = prev"
| "apply_smoothing_d_n factor x y (Suc n) prev =
     snd (apply_smoothing_d factor x y (apply_smoothing_d_n factor x y n prev))"

section \<open>The serial variant (\<^verbatim>\<open>tremor_filter.py\<close>)\<close>

text \<open>
  The names of this module that clash with the enhanced variant's carry the prefix
  \<open>tf\<close>. Its settings are never reassigned: \<^verbatim>\<open>SAMPLE_SIZE = 20\<close>,
  \<^verbatim>\<open>SHAKE_THRESHOLD = 1.7\<close>, \<^verbatim>\<open>SMOOTHING_FACTOR = 0.4\<close>.
\<close>

definition TF_SAMPLE_SIZE :: nat where
  "TF_SAMPLE_SIZE = 20"

definition TF_SHAKE_THRESHOLD :: real where
  "TF_SHAKE_THRESHOLD = 17 / 10"

definition TF_SMOOTHING_FACTOR :: real where
  "TF_SMOOTHING_FACTOR = 4 / 10"

record tf_state =
  mouse_history :: "(int \<times> int) list"
  tf_tremor_detected :: bool
  tf_stabilization_active :: bool
  arduino_verified :: bool
  tf_last_x :: real
  tf_last_y :: real

definition tf_initial_state :: tf_state where
  "tf_initial_state =
     \<lparr> mouse_history = [], tf_tremor_detected = False, tf_stabilization_active = True,
       arduino_verified = False, tf_last_x = 0, tf_last_y = 0 \<rparr>"

text \<open>
  The direction loop of the baseline \<^verbatim>\<open>detect_tremor\<close>: the raw dot product of each
  consecutive pair whose first vector is non-zero.
\<close>

fun tf_directions :: "(int \<times> int) list \<Rightarrow> int list" where
  "tf_directions (p # c # rest) =
     (if fst p \<noteq> 0 \<or> snd p \<noteq> 0 then [fst p * fst c + snd p * snd c] else [])
     @ tf_directions (c # rest)"
| "tf_directions _ = []"

text \<open>The second disjunct of \<^verbatim>\<open>is_tremor\<close>: \<^verbatim>\<open>direction_changes > len(directions) * 0.4\<close>.\<close>

definition tf_directional :: "(int \<times> int) list \<Rightarrow> bool" where
  "tf_directional history =
     (let ds = tf_directions history;
          direction_changes = length (filter (\<lambda>d. d < 0) ds)
      in real direction_changes > real (length ds) * (4 / 10))"

definition tf_detect_tremor :: "int \<Rightarrow> int \<Rightarrow> tf_state \<Rightarrow> bool \<times> tf_state" where
  "tf_detect_tremor x y s =
     (let s1 = s\<lparr> mouse_history := deque_append TF_SAMPLE_SIZE (mouse_history s) (x, y) \<rparr>
      in if length (mouse_history s1) < TF_SAMPLE_SIZE div 2 then (False, s1)
         else
           let current_magnitude = calculate_magnitude x y;
               magnitudes = map (\<lambda>p. calculate_magnitude (fst p) (snd p)) (mouse_history s1);
               avg_magnitude = np_mean magnitudes;
               std_magnitude = np_std magnitudes;
               is_tremor =
                 (current_magnitude > avg_magnitude * TF_SHAKE_THRESHOLD
                  \<or> tf_directional (mouse_history s1)
                  \<or> std_magnitude > avg_magnitude * (8 / 10))
           in (is_tremor, s1))"

text \<open>The serial variant's \<^verbatim>\<open>apply_smoothing\<close> returns the floats themselves.\<close>

definition tf_apply_smoothing :: "real \<Rightarrow> real \<Rightarrow> tf_state \<Rightarrow> (real \<times> real) \<times> tf_state" where
  "tf_apply_smoothing x y s =
     (let filtered_x = TF_SMOOTHING_FACTOR * x + (1 - TF_SMOOTHING_FACTOR) * tf_last_x s;
          filtered_y = TF_SMOOTHING_FACTOR * y + (1 - TF_SMOOTHING_FACTOR) * tf_last_y s
      in ((filtered_x, filtered_y), s\<lparr> tf_last_x := filtered_x, tf_last_y := filtered_y \<rparr>))"

subsection \<open>Records of the serial link\<close>

text \<open>\<^verbatim>\<open>line.split(',')\<close>: never empty; an empty line gives one empty field.\<close>

fun split_comma :: "string \<Rightarrow> string list" where
  "split_comma [] = [[]]"
| "split_comma (c # cs) =
     (if c = CHR '','' then [] # split_comma cs
      else (case split_comma cs of
              w # ws \<Rightarrow> (c # w) # ws
            | [] \<Rightarrow> [[c]]))"

text \<open>\<^verbatim>\<open>','.join(fields)\<close>.\<close>

fun join_comma :: "string list \<Rightarrow> string" where
  "join_comma [] = []"
| "join_comma [a] = a"
| "join_comma (a # b # rest) = a @ '','' @ join_comma (b # rest)"

text \<open>
  \<^verbatim>\<open>int(text)\<close> on a string. A character stands for its code point, which is below 256.
  The whitespace that \<^verbatim>\<open>int\<close> skips at both ends is tab, line feed, vertical tab, form
  feed, carriage return and space, and among the code points from 128 on the next-line
  character 0x85 and the no-break space 0xA0. The separators 0x1C to 0x1F are not skipped:
  \<^verbatim>\<open>int('5\x1c')\<close> raises.
\<close>

definition is_space :: "char \<Rightarrow> bool" where
  "is_space c = ((of_char c :: nat) \<in> {9, 10, 11, 12, 13, 32, 133, 160})"

definition is_digit :: "char \<Rightarrow> bool" where
  "is_digit c = (48 \<le> (of_char c :: nat) \<and> (of_char c :: nat) \<le> 57)"

definition py_strip :: "string \<Rightarrow> string" where
  "py_strip t = rev (dropWhile is_space (rev (dropWhile is_space t)))"

fun parse_digits :: "string \<Rightarrow> bool \<Rightarrow> nat \<Rightarrow> nat option" where
  "parse_digits [] after_digit acc = (if after_digit then Some acc else None)"
| "parse_digits (c # cs) after_digit acc =
     (if is_digit c then parse_digits cs True (acc * 10 + ((of_char c :: nat) - 48))
      else if c = CHR ''_'' \<and> after_digit \<and> cs \<noteq> [] then parse_digits cs False acc
      else None)"

text \<open>
  The digits of a literal, which may be grouped by single underscores between digits.
  \<open>max_str_digits\<close> is the interpreter's \<^verbatim>\<open>sys.int_max_str_digits\<close>, 4300 unless it was
  changed and 0 for no limit: a literal of more than 640 digits is refused when it has more
  digits than that. Leading zeros count as digits, underscores do not.
\<close>

definition default_max_str_digits :: nat where
  "default_max_str_digits = 4300"

definition digits_of :: "nat \<Rightarrow> string \<Rightarrow> nat option" where
  "digits_of max_str_digits body =
     (let digits = length (filter is_digit body)
      in if 640 < digits \<and> 0 < max_str_digits \<and> max_str_digits < digits then None
         else parse_digits body False 0)"

text \<open>
  \<^verbatim>\<open>int(text)\<close>: the whitespace at both ends is skipped, one sign may lead, the rest is
  the digits. \<open>None\<close> is the \<^verbatim>\<open>ValueError\<close>.
\<close>

definition int_of_str :: "nat \<Rightarrow> string \<Rightarrow> int option" where
  "int_of_str max_str_digits t =
     (case py_strip t of
        [] \<Rightarrow> None
      | c # cs \<Rightarrow>
          if c = CHR ''-'' then map_option (\<lambda>n. - int n) (digits_of max_str_digits cs)
          else if c = CHR ''+'' then map_option int (digits_of max_str_digits cs)
          else map_option int (digits_of max_str_digits (c # cs)))"

text \<open>\<^verbatim>\<open>needle in line\<close>: a contiguous occurrence.\<close>

fun starts_with :: "string \<Rightarrow> string \<Rightarrow> bool" where
  "starts_with [] t = True"
| "starts_with (a # as) [] = False"
| "starts_with (a # as) (b # bs) = (a = b \<and> starts_with as bs)"

fun contains :: "string \<Rightarrow> string \<Rightarrow> bool" where
  "contains needle [] = (needle = [])"
| "contains needle (c # cs) = (starts_with needle (c # cs) \<or> contains needle cs)"

text \<open>What the loop does to the outside: cursor moves, button events, printed lines.\<close>

datatype effect = MoveRel int int | MouseDown string | MouseUp string | Print string

definition button_map :: "string \<Rightarrow> string" where
  "button_map b = (if b = ''L'' then ''left'' else if b = ''R'' then ''right'' else ''middle'')"

text \<open>
  The body of the loop of \<^verbatim>\<open>process_data\<close> for one record: \<open>line\<close> is the decoded,
  stripped line. The result is the new state and the effects, in order. \<open>max_str_digits\<close>
  is the digit limit of the interpreter that runs the loop.
\<close>

definition process_line :: "nat \<Rightarrow> string \<Rightarrow> tf_state \<Rightarrow> tf_state \<times> effect list" where
  "process_line max_str_digits line s =
     (if line = [] then (s, [])
      else
        let parts = split_comma line
        in if hd parts = ''M'' \<and> length parts \<ge> 3 then
             (case int_of_str max_str_digits (parts ! 1) of
                None \<Rightarrow> (s, [Print (''Error parsing movement data: '' @ line)])
              | Some x \<Rightarrow>
                 (case int_of_str max_str_digits (parts ! 2) of
                    None \<Rightarrow> (s, [Print (''Error parsing movement data: '' @ line)])
                  | Some y \<Rightarrow>
                     (let (d, s1) = tf_detect_tremor x y s;
                          s2 = s1\<lparr> tf_tremor_detected := d \<rparr>;
                          (xy, s3) =
                            (if d \<and> tf_stabilization_active s2
                             then tf_apply_smoothing (of_int x) (of_int y) s2
                             else ((of_int x, of_int y), s2))
                      in (s3,
                          if fst xy \<noteq> 0 \<or> snd xy \<noteq> 0
                          then [MoveRel (py_int (fst xy)) (py_int (snd xy))] else []))))
           else if hd parts \<in> {''L'', ''R'', ''N''} \<and> length parts \<ge> 2 then
             (s, [if parts ! 1 = ''1'' then MouseDown (button_map (hd parts))
                  else MouseUp (button_map (hd parts))])
           else if hd parts = ''I'' then
             (if contains ''USB Host Shield'' line then s\<lparr> arduino_verified := True \<rparr> else s,
              [Print (''Info: '' @ join_comma (tl parts))])
           else if hd parts = ''E'' then
             (s, [Print (''Error from Arduino: '' @ join_comma (tl parts))])
           else (s, []))"

text \<open>The loop over the records that arrive, one after the other.\<close>

fun process_data :: "nat \<Rightarrow> string list \<Rightarrow> tf_state \<Rightarrow> tf_state \<times> effect list" where
  "process_data max_str_digits [] s = (s, [])"
| "process_data max_str_digits (line # rest) s =
     (let (s1, out) = process_line max_str_digits line s;
          (s2, outs) = process_data max_str_digits rest s1
      in (s2, out @ outs))"

section \<open>Inputs used in the examples\<close>

text \<open>A poll as a triple \<open>(x, y, now)\<close>.\<close>

definition poll :: "int \<times> int \<times> real \<Rightarrow> event" where
  "poll p = Poll (fst p) (fst (snd p)) (snd (snd p))"

text \<open>
  Fifteen samples of a steady drift to the right, one pixel every tenth of a second.
\<close>

definition drift_samples :: "sample list" where
  "drift_samples =
     [(1, 0, 1, 0, 0), (1, 0, 2, 0, 1 / 10), (1, 0, 3, 0, 2 / 10), (1, 0, 4, 0, 3 / 10),
      (1, 0, 5, 0, 4 / 10), (1, 0, 6, 0, 5 / 10), (1, 0, 7, 0, 6 / 10), (1, 0, 8, 0, 7 / 10),
      (1, 0, 9, 0, 8 / 10), (1, 0, 10, 0, 9 / 10), (1, 0, 11, 0, 10 / 10),
      (1, 0, 12, 0, 11 / 10), (1, 0, 13, 0, 12 / 10), (1, 0, 14, 0, 13 / 10),
      (1, 0, 15, 0, 14 / 10)]"

text \<open>
  Eleven samples of a cursor shaking between (1005, 1000) and (1000, 1000), one a second.
\<close>

definition shake_samples :: "sample list" where
  "shake_samples =
     [(5, 0, 1005, 1000, 1), (- 5, 0, 1000, 1000, 2), (5, 0, 1005, 1000, 3),
      (- 5, 0, 1000, 1000, 4), (5, 0, 1005, 1000, 5), (- 5, 0, 1000, 1000, 6),
      (5, 0, 1005, 1000, 7), (- 5, 0, 1000, 1000, 8), (5, 0, 1005, 1000, 9),
      (- 5, 0, 1000, 1000, 10), (5, 0, 1005, 1000, 11)]"

text \<open>
  Stabilization switched off and on again, then twelve polls of a cursor shaking between
  (1005, 1000) and (1000, 1000).
\<close>

definition shake_events :: "event list" where
  "shake_events =
     [Toggle, Toggle,
      Poll 1005 1000 1, Poll 1000 1000 2, Poll 1005 1000 3, Poll 1000 1000 4,
      Poll 1005 1000 5, Poll 1000 1000 6, Poll 1005 1000 7, Poll 1000 1000 8,
      Poll 1005 1000 9, Poll 1000 1000 10, Poll 1005 1000 11, Poll 1000 1000 12]"

section \<open>Facts about the shared helpers\<close>

lemma length_deque_append:
  "length (deque_append n xs x) = (if length xs < n then Suc (length xs) else length xs)"
  by (cases xs) (auto simp: deque_append_def)

lemma deque_append_drop:
  "deque_append n (drop (length xs - n) xs) x = drop (length (xs @ [x]) - n) (xs @ [x])"
proof (cases "length xs < n")
  case True
  then show ?thesis by (simp add: deque_append_def)
next
  case False
  then have le: "n \<le> length xs" by simp
  show ?thesis
  proof (cases "n = 0")
    case True
    then show ?thesis by (simp add: deque_append_def)
  next
    case False
    with le have "Suc (length xs) - n = Suc (length xs - n)" by simp
    with le False show ?thesis
      by (simp add: deque_append_def drop_Suc tl_drop)
  qed
qed

lemma calculate_magnitude_axis: "calculate_magnitude x 0 = \<bar>of_int x\<bar>"
  by (simp add: calculate_magnitude_def)

lemma calculate_magnitude_pos:
  "x \<noteq> 0 \<or> y \<noteq> 0 \<Longrightarrow> 0 < calculate_magnitude x y"
  by (simp add: calculate_magnitude_def sum_power2_gt_zero_iff)

section \<open>The rolling window of the enhanced classifier\<close>

lemma detect_tremor_histories:
  "delta_history (snd (detect_tremor cfg dx dy x y now s))
     = deque_append HISTORY_MAXLEN (delta_history s) (dx, dy)"
  "position_history (snd (detect_tremor cfg dx dy x y now s))
     = deque_append HISTORY_MAXLEN (position_history s) (x, y)"
  "timestamp_history (snd (detect_tremor cfg dx dy x y now s))
     = deque_append HISTORY_MAXLEN (timestamp_history s) now"
  by (simp_all add: detect_tremor_def push_sample_def Let_def)

lemma feed_all_snoc:
  "feed_all cfg (ss @ [smp]) s = snd (feed_sample cfg smp (feed_all cfg ss s))"
  by (induction ss arbitrary: s) simp_all

text \<open>
  Claim C9. After any sequence of classifier calls from the initial state, the three
  histories are the delta, the position and the timestamp of one and the same list of
  samples, the most recent 25 fed, in the same order; so they have equal length and equal
  indices describe the same sample.
\<close>

theorem histories_describe_same_samples:
  "delta_history (feed_all cfg ss initial_state) = map sample_delta (window_of ss)
   \<and> position_history (feed_all cfg ss initial_state) = map sample_position (window_of ss)
   \<and> timestamp_history (feed_all cfg ss initial_state) = map sample_time (window_of ss)
   \<and> length (delta_history (feed_all cfg ss initial_state))
       = length (position_history (feed_all cfg ss initial_state))
   \<and> length (position_history (feed_all cfg ss initial_state))
       = length (timestamp_history (feed_all cfg ss initial_state))"
proof -
  have main: "delta_history (feed_all cfg ss initial_state) = map sample_delta (window_of ss)
     \<and> position_history (feed_all cfg ss initial_state) = map sample_position (window_of ss)
     \<and> timestamp_history (feed_all cfg ss initial_state) = map sample_time (window_of ss)"
  proof (induction ss rule: rev_induct)
    case Nil
    show ?case by (simp add: initial_state_def window_of_def)
  next
    case (snoc smp ss)
    obtain dx dy x y now where smp: "smp = (dx, dy, x, y, now)"
      by (cases smp) auto
    have w: "window_of (ss @ [smp]) = deque_append HISTORY_MAXLEN (window_of ss) smp"
      unfolding window_of_def by (rule deque_append_drop [symmetric])
    have m: "\<And>f. map f (deque_append HISTORY_MAXLEN (window_of ss) smp)
              = deque_append HISTORY_MAXLEN (map f (window_of ss)) (f smp)"
      by (simp add: deque_append_def map_tl)
    have pr: "sample_delta smp = (dx, dy)" "sample_position smp = (x, y)"
        "sample_time smp = now"
      by (simp_all add: smp sample_delta_def sample_position_def sample_time_def)
    show ?case
      unfolding w m pr using snoc.IH
      by (simp add: feed_all_snoc smp detect_tremor_histories)
  qed
  then show ?thesis by simp
qed

theorem histories_describe_same_samples_witness:
  "delta_history (feed_all default_config [(3, 4, 13, 14, 1), (-2, 0, 11, 14, 2)] initial_state)
     = [(3, 4), (-2, 0)]
   \<and> position_history (feed_all default_config [(3, 4, 13, 14, 1), (-2, 0, 11, 14, 2)] initial_state)
     = [(13, 14), (11, 14)]
   \<and> timestamp_history (feed_all default_config [(3, 4, 13, 14, 1), (-2, 0, 11, 14, 2)] initial_state)
     = [1, 2]"
  using histories_describe_same_samples
    [of default_config "[(3, 4, 13, 14, 1), (-2, 0, 11, 14, 2)]"]
  by (simp add: window_of_def HISTORY_MAXLEN_def sample_delta_def sample_position_def
      sample_time_def)

section \<open>The classifier below half capacity\<close>

lemma detect_tremor_below_half:
  assumes "int (length (deque_append HISTORY_MAXLEN (delta_history s) (dx, dy)))
             < SAMPLE_SIZE cfg div 2"
  shows "detect_tremor cfg dx dy x y now s = (False, push_sample dx dy x y now s)"
  using assms by (simp add: detect_tremor_def push_sample_def Let_def)

lemma detect_tremor_early:
  assumes "int (length (delta_history (snd (detect_tremor cfg dx dy x y now s))))
             < SAMPLE_SIZE cfg div 2"
  shows "\<not> fst (detect_tremor cfg dx dy x y now s)
     \<and> tremor_intensity (snd (detect_tremor cfg dx dy x y now s)) = tremor_intensity s
     \<and> tremor_type (snd (detect_tremor cfg dx dy x y now s)) = tremor_type s"
proof -
  from assms have "int (length (deque_append HISTORY_MAXLEN (delta_history s) (dx, dy)))
             < SAMPLE_SIZE cfg div 2"
    by (simp only: detect_tremor_histories)
  then have "detect_tremor cfg dx dy x y now s = (False, push_sample dx dy x y now s)"
    by (rule detect_tremor_below_half)
  then show ?thesis by (simp add: push_sample_def)
qed

lemma detect_tremor_length_mono:
  "length (delta_history s) \<le> length (delta_history (snd (detect_tremor cfg dx dy x y now s)))"
  by (simp add: detect_tremor_histories length_deque_append)

lemma below_half_untouched:
  "int (length (delta_history (feed_all cfg ss initial_state))) < SAMPLE_SIZE cfg div 2
   \<Longrightarrow> tremor_intensity (feed_all cfg ss initial_state) = 0
     \<and> tremor_type (feed_all cfg ss initial_state) = ''None''"
proof (induction ss rule: rev_induct)
  case Nil
  show ?case by (simp add: initial_state_def)
next
  case (snoc smp ss)
  obtain dx dy x y now where smp: "smp = (dx, dy, x, y, now)"
    by (cases smp) auto
  let ?s = "feed_all cfg ss initial_state"
  have st: "feed_all cfg (ss @ [smp]) initial_state = snd (detect_tremor cfg dx dy x y now ?s)"
    by (simp add: feed_all_snoc smp)
  from snoc.prems
  have small: "int (length (delta_history (snd (detect_tremor cfg dx dy x y now ?s))))
      < SAMPLE_SIZE cfg div 2"
    by (simp add: st)
  moreover have "length (delta_history ?s)
      \<le> length (delta_history (snd (detect_tremor cfg dx dy x y now ?s)))"
    by (rule detect_tremor_length_mono)
  ultimately have "int (length (delta_history ?s)) < SAMPLE_SIZE cfg div 2" by linarith
  then have ih: "tremor_intensity ?s = 0 \<and> tremor_type ?s = ''None''" by (rule snoc.IH)
  from detect_tremor_early [OF small] ih show ?case by (simp add: st)
qed

text \<open>
  Claim C4, as the code has it. Feed any sequence of samples from the initial state and then
  one more: if the window then holds fewer than \<^verbatim>\<open>SAMPLE_SIZE // 2\<close> samples, the integer
  quotient (12 for the default size 25), that call returns \<open>False\<close> and the intensity
  is 0.
\<close>

theorem below_half_not_detected:
  assumes "int (length (delta_history (snd (feed_sample cfg smp (feed_all cfg ss initial_state)))))
             < SAMPLE_SIZE cfg div 2"
  shows "fst (feed_sample cfg smp (feed_all cfg ss initial_state)) = False
       \<and> tremor_intensity (snd (feed_sample cfg smp (feed_all cfg ss initial_state))) = 0"
proof -
  obtain dx dy x y now where smp: "smp = (dx, dy, x, y, now)"
    by (cases smp) auto
  from assms
  have a: "int (length (delta_history (feed_all cfg (ss @ [smp]) initial_state)))
             < SAMPLE_SIZE cfg div 2"
    by (simp add: feed_all_snoc)
  from below_half_untouched [OF a]
  have "tremor_intensity (snd (feed_sample cfg smp (feed_all cfg ss initial_state))) = 0"
    by (simp add: feed_all_snoc)
  moreover from assms detect_tremor_early [of cfg dx dy x y now "feed_all cfg ss initial_state"]
  have "\<not> fst (feed_sample cfg smp (feed_all cfg ss initial_state))"
    by (simp add: smp)
  ultimately show ?thesis by simp
qed

theorem below_half_not_detected_witness:
  "int (length (delta_history (snd (feed_sample default_config (9, 0, 9, 0, 2)
           (feed_all default_config [(-9, 0, 0, 0, 1)] initial_state)))))
     < SAMPLE_SIZE default_config div 2
   \<and> fst (feed_sample default_config (9, 0, 9, 0, 2)
           (feed_all default_config [(-9, 0, 0, 0, 1)] initial_state)) = False
   \<and> tremor_intensity (snd (feed_sample default_config (9, 0, 9, 0, 2)
           (feed_all default_config [(-9, 0, 0, 0, 1)] initial_state))) = 0"
proof -
  have h: "int (length (delta_history (snd (feed_sample default_config (9, 0, 9, 0, 2)
           (feed_all default_config [(-9, 0, 0, 0, 1)] initial_state)))))
     < SAMPLE_SIZE default_config div 2"
    by (simp add: detect_tremor_histories length_deque_append HISTORY_MAXLEN_def
        initial_state_def default_config_def)
  from h below_half_not_detected [OF h] show ?thesis by simp
qed

text \<open>
  Eleven samples of a shaking cursor and a twelfth, with the default size 25: the window then
  holds 12 samples, fewer than 25 / 2, and the twelfth call detects a tremor with
  intensity 2/5.
\<close>

theorem twelve_samples_detected:
  "real (length (delta_history (snd (feed_sample default_config (- 5, 0, 1000, 1000, 12)
           (feed_all default_config shake_samples initial_state)))))
     < real_of_int (SAMPLE_SIZE default_config) / 2
   \<and> fst (feed_sample default_config (- 5, 0, 1000, 1000, 12)
           (feed_all default_config shake_samples initial_state))
   \<and> tremor_intensity (snd (feed_sample default_config (- 5, 0, 1000, 1000, 12)
           (feed_all default_config shake_samples initial_state))) = 2 / 5"
  by (simp add: shake_samples_def detect_tremor_def push_sample_def deque_append_def
      tremor_scores_def detected_types_def np_mean_def np_std_def calculate_frequency_def
      calculate_jitter_def direction_change_ratio_def FREQUENCY_WINDOW_def
      HISTORY_MAXLEN_def default_config_def Let_def calculate_magnitude_axis
      initial_state_def)

section \<open>Score, decision and reported causes of the enhanced classifier\<close>

lemmas classifier_eval =
  detect_tremor_def push_sample_def deque_append_def tremor_scores_def detected_types_def
  np_mean_def np_std_def calculate_frequency_def calculate_jitter_def
  direction_change_ratio_def FREQUENCY_WINDOW_def HISTORY_MAXLEN_def default_config_def
  Let_def calculate_magnitude_axis

lemma tremor_scores_sum:
  "sum_list (map snd (tremor_scores cfg dx dy s))
     = real (length (detected_types (tremor_scores cfg dx dy s)))"
  by (simp add: tremor_scores_def detected_types_def Let_def)

lemma score_threshold:
  fixes k :: nat
  shows "(real k / 5 > 3 / 10) = (2 \<le> k)"
  by (simp add: field_simps) linarith

lemma detect_tremor_classified:
  assumes "\<not> int (length (delta_history (push_sample dx dy x y now s))) < SAMPLE_SIZE cfg div 2"
  shows "detect_tremor cfg dx dy x y now s =
     (let s1 = push_sample dx dy x y now s;
          scores = tremor_scores cfg dx dy s1;
          tremor_score = sum_list (map snd scores) / 5
      in (tremor_score > 3 / 10,
          s1\<lparr> tremor_intensity := tremor_score,
              tremor_type := (if tremor_score > 3 / 10 then join_plus (detected_types scores)
                              else ''None'') \<rparr>))"
  using assms by (simp add: detect_tremor_def Let_def)

text \<open>
  Claim C2, as the code has it. Once the window holds at least \<^verbatim>\<open>SAMPLE_SIZE // 2\<close>
  samples, the intensity is the number of criteria that fired divided by 5, the call returns
  \<open>True\<close> exactly when at least two criteria fired, and the reported type names the
  criteria that fired when the call returns \<open>True\<close> and is \<^verbatim>\<open>"None"\<close> otherwise.
\<close>

theorem classifier_score_and_causes:
  assumes "SAMPLE_SIZE cfg div 2 \<le> int (length (delta_history (push_sample dx dy x y now s)))"
  shows "tremor_intensity (snd (detect_tremor cfg dx dy x y now s))
           = real (length (detected_types
                (tremor_scores cfg dx dy (push_sample dx dy x y now s)))) / 5
       \<and> fst (detect_tremor cfg dx dy x y now s)
           = (2 \<le> length (detected_types
                (tremor_scores cfg dx dy (push_sample dx dy x y now s))))
       \<and> tremor_type (snd (detect_tremor cfg dx dy x y now s))
           = (if fst (detect_tremor cfg dx dy x y now s)
              then join_plus (detected_types
                (tremor_scores cfg dx dy (push_sample dx dy x y now s)))
              else ''None'')"
proof -
  from assms
  have "\<not> int (length (delta_history (push_sample dx dy x y now s))) < SAMPLE_SIZE cfg div 2"
    by simp
  note d = detect_tremor_classified [OF this]
  show ?thesis
    unfolding d Let_def tremor_scores_sum score_threshold by simp
qed

text \<open>Which names the list of fired criteria holds: each one exactly when its test passes.\<close>

lemma fired_criteria:
  "(''Frequency'' \<in> set (detected_types (tremor_scores cfg dx dy s)))
     = (MIN_TREMOR_FREQUENCY cfg \<le> calculate_frequency (timestamp_history s)
        \<and> calculate_frequency (timestamp_history s) \<le> MAX_TREMOR_FREQUENCY cfg)"
  "(''Directional'' \<in> set (detected_types (tremor_scores cfg dx dy s)))
     = (direction_change_ratio (delta_history s) > DIRECTION_CHANGE_THRESHOLD cfg)"
  "(''Magnitude'' \<in> set (detected_types (tremor_scores cfg dx dy s)))
     = (calculate_magnitude dx dy
          > np_mean (map (\<lambda>d. calculate_magnitude (fst d) (snd d)) (delta_history s))
            * SHAKE_THRESHOLD cfg)"
  "(''Jitter'' \<in> set (detected_types (tremor_scores cfg dx dy s)))
     = (calculate_jitter (position_history s) > JITTER_THRESHOLD cfg)"
  "(''Variance'' \<in> set (detected_types (tremor_scores cfg dx dy s)))
     = ((if np_mean (map (\<lambda>d. calculate_magnitude (fst d) (snd d)) (delta_history s)) > 0
         then np_std (map (\<lambda>d. calculate_magnitude (fst d) (snd d)) (delta_history s))
              / np_mean (map (\<lambda>d. calculate_magnitude (fst d) (snd d)) (delta_history s))
         else 0) > STD_DEV_THRESHOLD cfg)"
  by (simp_all add: tremor_scores_def detected_types_def Let_def)

lemma drift_feed:
  "feed_all default_config (butlast drift_samples) initial_state
   = initial_state
     \<lparr> delta_history := [(1,0),(1,0),(1,0),(1,0),(1,0),(1,0),(1,0),(1,0),(1,0),(1,0),(1,0),(1,0),(1,0),(1,0)],
       position_history := [(1,0),(2,0),(3,0),(4,0),(5,0),(6,0),(7,0),(8,0),(9,0),(10,0),(11,0),(12,0),(13,0),(14,0)],
       timestamp_history := [0, 1/10, 2/10, 3/10, 4/10, 5/10, 6/10, 7/10, 8/10, 9/10, 10/10, 11/10, 12/10, 13/10] \<rparr>"
  by (simp add: drift_samples_def classifier_eval initial_state_def)

text \<open>
  Fifteen samples of steady drift at 10 Hz: on the fifteenth the frequency criterion fires
  and no other, the intensity is 1/5, nothing is detected, and the reported type is
  \<^verbatim>\<open>"None"\<close>, not \<^verbatim>\<open>"Frequency"\<close>.
\<close>

theorem drift_one_criterion_no_cause:
  "detected_types (tremor_scores default_config 1 0
       (push_sample 1 0 15 0 (14 / 10) (feed_all default_config (butlast drift_samples) initial_state)))
     = [''Frequency'']
   \<and> fst (detect_tremor default_config 1 0 15 0 (14 / 10)
        (feed_all default_config (butlast drift_samples) initial_state)) = False
   \<and> tremor_intensity (snd (detect_tremor default_config 1 0 15 0 (14 / 10)
        (feed_all default_config (butlast drift_samples) initial_state))) = 1 / 5
   \<and> tremor_type (snd (detect_tremor default_config 1 0 15 0 (14 / 10)
        (feed_all default_config (butlast drift_samples) initial_state))) = ''None''"
  unfolding drift_feed
  by (simp add: classifier_eval initial_state_def)

theorem classifier_score_and_causes_witness:
  "SAMPLE_SIZE default_config div 2
     \<le> int (length (delta_history (push_sample (-5) 0 1000 1000 12
           (fst (run_events default_config (butlast shake_events)
                  (monitor_init 1000 1000 initial_state))))))
   \<and> tremor_intensity (snd (detect_tremor default_config (-5) 0 1000 1000 12
           (fst (run_events default_config (butlast shake_events)
                  (monitor_init 1000 1000 initial_state))))) = 2 / 5
   \<and> fst (detect_tremor default_config (-5) 0 1000 1000 12
           (fst (run_events default_config (butlast shake_events)
                  (monitor_init 1000 1000 initial_state))))
   \<and> tremor_type (snd (detect_tremor default_config (-5) 0 1000 1000 12
           (fst (run_events default_config (butlast shake_events)
                  (monitor_init 1000 1000 initial_state))))) = ''Directional+Jitter''"
proof -
  define S where "S = fst (run_events default_config (butlast shake_events)
                  (monitor_init 1000 1000 initial_state))"
  have S: "S = initial_state
     \<lparr> delta_history := [(5,0),(-5,0),(5,0),(-5,0),(5,0),(-5,0),(5,0),(-5,0),(5,0),(-5,0),(5,0)],
       position_history := [(1005,1000),(1000,1000),(1005,1000),(1000,1000),(1005,1000),
         (1000,1000),(1005,1000),(1000,1000),(1005,1000),(1000,1000),(1005,1000)],
       timestamp_history := [1, 2, 3, 4, 5, 6, 7, 8, 9, 10, 11],
       last_real_x := 1005, last_real_y := 1000 \<rparr>"
    unfolding S_def
    by (simp add: shake_events_def monitor_step_def toggle_stabilization_def monitor_init_def
        classifier_eval initial_state_def)
  have h: "SAMPLE_SIZE default_config div 2
     \<le> int (length (delta_history (push_sample (-5) 0 1000 1000 12 S)))"
    unfolding S by (simp add: classifier_eval initial_state_def)
  have f: "detected_types (tremor_scores default_config (-5) 0 (push_sample (-5) 0 1000 1000 12 S))
             = [''Directional'', ''Jitter'']"
    unfolding S by (simp add: classifier_eval initial_state_def)
  from classifier_score_and_causes [OF h] h show ?thesis
    unfolding f S_def [symmetric] by simp
qed

section \<open>The frequency estimate\<close>

lemma length_intervals_of: "length (intervals_of ts) = length ts - 1"
  by (induction ts rule: intervals_of.induct) simp_all

lemma sum_intervals_of: "ts \<noteq> [] \<Longrightarrow> sum_list (intervals_of ts) = last ts - hd ts"
  by (induction ts rule: intervals_of.induct) simp_all

text \<open>
  Claim C5, as the code has it. With fewer than \<^verbatim>\<open>FREQUENCY_WINDOW\<close> timestamps the
  estimate is 0. Otherwise it is taken from the most recent \<^verbatim>\<open>FREQUENCY_WINDOW\<close>
  timestamps: their 14 consecutive intervals average to the span of those timestamps divided
  by 14, and the estimate is the inverse of that average, or 0 when the average is 0.
\<close>

theorem calculate_frequency_window:
  "calculate_frequency ts =
     (if length ts < FREQUENCY_WINDOW then 0
      else if last ts = ts ! (length ts - FREQUENCY_WINDOW) then 0
      else 14 / (last ts - ts ! (length ts - FREQUENCY_WINDOW)))
   \<and> (FREQUENCY_WINDOW \<le> length ts \<longrightarrow>
        np_mean (intervals_of (drop (length ts - FREQUENCY_WINDOW) ts))
          = (last ts - ts ! (length ts - FREQUENCY_WINDOW)) / 14)"
proof (cases "length ts < FREQUENCY_WINDOW")
  case True
  then show ?thesis by (simp add: calculate_frequency_def)
next
  case False
  define r where "r = drop (length ts - FREQUENCY_WINDOW) ts"
  from False have len: "length r = 15" by (simp add: r_def FREQUENCY_WINDOW_def)
  then have ne: "r \<noteq> []" by auto
  from False have lst: "last r = last ts" by (simp add: r_def FREQUENCY_WINDOW_def)
  from False have hd: "hd r = ts ! (length ts - FREQUENCY_WINDOW)"
    by (simp add: r_def hd_drop_conv_nth FREQUENCY_WINDOW_def)
  have li: "length (intervals_of r) = 14" by (simp add: length_intervals_of len)
  then have ine: "intervals_of r \<noteq> []" by auto
  have mean: "np_mean (intervals_of r) = (last ts - ts ! (length ts - FREQUENCY_WINDOW)) / 14"
    by (simp add: np_mean_def li sum_intervals_of [OF ne] lst hd)
  from False ine show ?thesis
    unfolding calculate_frequency_def Let_def r_def [symmetric] mean by simp
qed

theorem calculate_frequency_window_witness:
  "calculate_frequency
     [0, 1 / 10, 2 / 10, 3 / 10, 4 / 10, 5 / 10, 6 / 10, 7 / 10, 8 / 10, 9 / 10,
      10 / 10, 11 / 10, 12 / 10, 13 / 10, 14 / 10] = 10
   \<and> calculate_frequency [5, 5, 5, 5, 5, 5, 5, 5, 5, 5, 5, 5, 5, 5, 5] = 0"
  using calculate_frequency_window
    [of "[0, 1 / 10, 2 / 10, 3 / 10, 4 / 10, 5 / 10, 6 / 10, 7 / 10, 8 / 10, 9 / 10,
          10 / 10, 11 / 10, 12 / 10, 13 / 10, 14 / 10]"]
    calculate_frequency_window [of "[5, 5, 5, 5, 5, 5, 5, 5, 5, 5, 5, 5, 5, 5, 5]"]
  by (simp add: FREQUENCY_WINDOW_def)

text \<open>
  Three timestamps a tenth of a second apart: at least two, fewer than
  \<^verbatim>\<open>FREQUENCY_WINDOW\<close>, with a positive average interval, and the estimate is 0.
\<close>

theorem calculate_frequency_short_history:
  "2 \<le> length [0, 1 / 10, 2 / 10 :: real]
   \<and> length [0, 1 / 10, 2 / 10 :: real] < FREQUENCY_WINDOW
   \<and> 0 < np_mean (intervals_of [0, 1 / 10, 2 / 10])
   \<and> calculate_frequency [0, 1 / 10, 2 / 10] = 0"
  by (simp add: calculate_frequency_def FREQUENCY_WINDOW_def np_mean_def)

section \<open>The smoothing filter\<close>

text \<open>
  Claim C3, as the code has it. The blend factor is the base factor with adaptive smoothing
  off and \<open>max 0.1 (base * (1 - intensity))\<close> with it on; the new filter state is the blend
  of the raw input with the previous filter state; the pair handed back is that blend
  truncated toward zero by \<^verbatim>\<open>int()\<close>. In scenario 4 of the specification the pair is (1, 1).
\<close>

theorem adaptive_smoothing_blend:
  "adaptive_factor cfg s =
     (if ADAPTIVE_SMOOTHING cfg
      then max (1 / 10) (SMOOTHING_FACTOR cfg * (1 - tremor_intensity s))
      else SMOOTHING_FACTOR cfg)
   \<and> last_x (snd (apply_adaptive_smoothing cfg x y s))
       = adaptive_factor cfg s * of_int x + (1 - adaptive_factor cfg s) * last_x s
   \<and> last_y (snd (apply_adaptive_smoothing cfg x y s))
       = adaptive_factor cfg s * of_int y + (1 - adaptive_factor cfg s) * last_y s
   \<and> fst (apply_adaptive_smoothing cfg x y s)
       = (py_int (adaptive_factor cfg s * of_int x + (1 - adaptive_factor cfg s) * last_x s),
          py_int (adaptive_factor cfg s * of_int y + (1 - adaptive_factor cfg s) * last_y s))
   \<and> fst (apply_adaptive_smoothing default_config 10 10
            (initial_state\<lparr> tremor_intensity := 8 / 10 \<rparr>)) = (1, 1)"
  by (simp add: apply_adaptive_smoothing_def adaptive_factor_def Let_def default_config_def
      initial_state_def py_int_def)

text \<open>Scenario 3 of the specification: adaptive smoothing off, factor 0.4, input (10, 10).\<close>

theorem adaptive_smoothing_blend_witness:
  "adaptive_factor (default_config\<lparr> ADAPTIVE_SMOOTHING := False \<rparr>) initial_state = 4 / 10
   \<and> last_x (snd (apply_adaptive_smoothing (default_config\<lparr> ADAPTIVE_SMOOTHING := False \<rparr>)
         10 10 initial_state)) = 4
   \<and> fst (apply_adaptive_smoothing (default_config\<lparr> ADAPTIVE_SMOOTHING := False \<rparr>)
         10 10 initial_state) = (4, 4)"
  using adaptive_smoothing_blend
    [of "default_config\<lparr> ADAPTIVE_SMOOTHING := False \<rparr>" initial_state 10 10]
  by (simp add: adaptive_factor_def default_config_def initial_state_def py_int_def)

text \<open>
  With adaptive smoothing off, factor 0.4 and filter state (0, 0), the input (1, 1) blends
  to 0.4, but the pair handed back is (0, 0).
\<close>

theorem adaptive_smoothing_output_truncated:
  "adaptive_factor (default_config\<lparr> ADAPTIVE_SMOOTHING := False \<rparr>) initial_state * of_int 1
     + (1 - adaptive_factor (default_config\<lparr> ADAPTIVE_SMOOTHING := False \<rparr>) initial_state)
       * last_x initial_state = 4 / 10
   \<and> fst (apply_adaptive_smoothing (default_config\<lparr> ADAPTIVE_SMOOTHING := False \<rparr>)
         1 1 initial_state) = (0, 0)"
  by (simp add: apply_adaptive_smoothing_def adaptive_factor_def Let_def default_config_def
      initial_state_def py_int_def)

section \<open>Repeating the smoothing step with a constant input\<close>

subsection \<open>The error of one rounding\<close>

lemma round_half_even_error: "\<bar>of_int (round_half_even t) - t\<bar> \<le> 1 / 2"
  unfolding round_half_even_def Let_def by (auto; linarith)

lemma round_half_even_int: "round_half_even (of_int k) = k"
  by (simp add: round_half_even_def)

lemma binade_lower:
  assumes "r \<noteq> 0"
  shows "2 powr of_int \<lfloor>log 2 \<bar>r\<bar>\<rfloor> \<le> \<bar>r\<bar>"
proof -
  have "2 powr of_int \<lfloor>log 2 \<bar>r\<bar>\<rfloor> \<le> 2 powr log 2 \<bar>r\<bar>"
    by (rule powr_mono) simp_all
  also have "\<dots> = \<bar>r\<bar>" using assms by simp
  finally show ?thesis .
qed

lemma double_round_error:
  "\<bar>double_round r - r\<bar> \<le> (\<bar>r\<bar> + 1) / 2 ^ 53"
proof (cases "r = 0")
  case True
  then show ?thesis by (simp add: double_round_def)
next
  case False
  define e where "e = max \<lfloor>log 2 \<bar>r\<bar>\<rfloor> (- 1022)"
  define q :: real where "q = 2 powr (of_int e - 52)"
  define z :: real where "z = of_int (round_half_even (r / q))"
  have qpos: "0 < q" by (simp add: q_def)
  have dr: "double_round r = z * q"
    using False by (simp add: double_round_def Let_def e_def q_def z_def)
  have zr: "\<bar>z - r / q\<bar> \<le> 1 / 2"
    unfolding z_def by (rule round_half_even_error)
  have "r = (r / q) * q" using qpos by simp
  then have "z * q - r = (z - r / q) * q"
    by (metis left_diff_distrib)
  then have "\<bar>z * q - r\<bar> = \<bar>z - r / q\<bar> * q"
    using qpos by (simp only: abs_mult abs_of_pos)
  also have "\<dots> \<le> 1 / 2 * q"
    using zr qpos by (intro mult_right_mono) simp_all
  finally have half: "\<bar>double_round r - r\<bar> \<le> q / 2" by (simp add: dr)
  have q52: "(2::real) powr 52 = 2 ^ 52" by (simp add: powr_numeral)
  have bound: "q / 2 \<le> (\<bar>r\<bar> + 1) / 2 ^ 53"
  proof (cases "- 1022 \<le> \<lfloor>log 2 \<bar>r\<bar>\<rfloor>")
    case True
    then have e: "e = \<lfloor>log 2 \<bar>r\<bar>\<rfloor>" by (simp add: e_def)
    have "q = 2 powr of_int \<lfloor>log 2 \<bar>r\<bar>\<rfloor> / 2 powr 52"
      unfolding q_def e by (rule powr_diff)
    also have "\<dots> \<le> \<bar>r\<bar> / 2 powr 52"
      using binade_lower [OF False] by (rule divide_right_mono) simp
    finally have "q \<le> \<bar>r\<bar> / 2 ^ 52" by (simp only: q52)
    then have "q / 2 \<le> \<bar>r\<bar> / 2 ^ 53" by simp
    also have "\<dots> \<le> (\<bar>r\<bar> + 1) / 2 ^ 53" by (rule divide_right_mono) simp_all
    finally show ?thesis .
  next
    case False
    then have e: "e = - 1022" by (simp add: e_def)
    have "q \<le> 2 powr (- 52)"
      unfolding q_def e by (rule powr_mono) simp_all
    also have "\<dots> = 1 / 2 powr 52" by (simp add: powr_minus inverse_eq_divide)
    finally have "q \<le> 1 / 2 ^ 52" by (simp only: q52)
    then have "q / 2 \<le> 1 / 2 ^ 53" by simp
    also have "\<dots> \<le> (\<bar>r\<bar> + 1) / 2 ^ 53" by (rule divide_right_mono) simp_all
    finally show ?thesis .
  qed
  from half bound show ?thesis by (rule order_trans)
qed

subsection \<open>Rounding in a known binade\<close>

lemma double_round_at:
  assumes "2 powr of_int e \<le> \<bar>r\<bar>" and "\<bar>r\<bar> < 2 powr (of_int e + 1)" and "- 1022 \<le> e"
  shows "double_round r
           = of_int (round_half_even (r / 2 powr (of_int e - 52))) * 2 powr (of_int e - 52)"
proof -
  have r0: "r \<noteq> 0" using assms(1) by (smt (verit) powr_gt_zero)
  have pos: "0 < \<bar>r\<bar>" using r0 by simp
  have "of_int e \<le> log 2 \<bar>r\<bar>"
    using assms(1) pos by (simp add: le_log_iff)
  moreover have "log 2 \<bar>r\<bar> < of_int e + 1"
    using assms(2) pos by (simp add: log_less_iff)
  ultimately have "\<lfloor>log 2 \<bar>r\<bar>\<rfloor> = e" by linarith
  with assms(3) r0 show ?thesis by (simp add: double_round_def Let_def)
qed

lemma double_round_up:
  fixes n :: nat
  assumes "2 ^ n \<le> \<bar>r\<bar>" and "\<bar>r\<bar> < 2 * 2 ^ n"
  shows "double_round r = of_int (round_half_even (r * 2 ^ 52 / 2 ^ n)) * 2 ^ n / 2 ^ 52"
proof -
  have p: "(2::real) powr real n = 2 ^ n" by (simp add: powr_realpow)
  have p1: "(2::real) powr (real n + 1) = 2 * 2 ^ n" by (simp add: powr_add powr_realpow)
  have q: "(2::real) powr (real n - 52) = 2 ^ n / 2 ^ 52"
    by (simp add: powr_diff powr_realpow powr_numeral)
  have "double_round r
           = of_int (round_half_even (r / 2 powr (of_int (int n) - 52)))
             * 2 powr (of_int (int n) - 52)"
    by (rule double_round_at) (use assms in \<open>simp_all add: p p1\<close>)
  then show ?thesis by (simp add: q)
qed

lemma powr_neg_nat: "(2::real) powr (- real m) = 1 / 2 ^ m"
  by (simp add: powr_minus powr_realpow inverse_eq_divide)

lemma double_round_down:
  fixes m :: nat
  assumes "1 / 2 ^ m \<le> \<bar>r\<bar>" and "\<bar>r\<bar> < 2 / 2 ^ m" and "m \<le> 1022"
  shows "double_round r = of_int (round_half_even (r * 2 ^ (52 + m))) / 2 ^ (52 + m)"
proof -
  have p1: "(2::real) powr (1 - real m) = 2 / 2 ^ m"
    by (simp add: powr_diff powr_realpow)
  have "- real m - 52 = - real (52 + m)" by simp
  then have q: "(2::real) powr (- real m - 52) = 1 / 2 ^ (52 + m)"
    by (simp only: powr_neg_nat)
  have e: "real_of_int (- int m) = - real m" by simp
  have h1: "2 powr real_of_int (- int m) \<le> \<bar>r\<bar>"
    unfolding e powr_neg_nat by (rule assms(1))
  have "real_of_int (- int m) + 1 = 1 - real m" by simp
  then have h2: "\<bar>r\<bar> < 2 powr (real_of_int (- int m) + 1)"
    using assms(2) by (simp only: p1)
  have h3: "- 1022 \<le> - int m" using assms(3) by linarith
  have "double_round r
           = of_int (round_half_even (r / 2 powr (of_int (- int m) - 52)))
             * 2 powr (of_int (- int m) - 52)"
    using h1 h2 h3 by (rule double_round_at)
  then show ?thesis unfolding e q by simp
qed

subsection \<open>One step shrinks the distance to the input, up to rounding\<close>

lemma blend_d_contracts:
  assumes a1: "1 / 2 ^ 49 \<le> a" and a2: "a \<le> 1"
  shows "\<bar>blend_d a x s - of_int x\<bar>
           \<le> (1 - a / 2) * \<bar>s - of_int x\<bar> + 14 * (\<bar>of_int x\<bar> + 1) / 2 ^ 53"
proof -
  define X :: real where "X = of_int x"
  define xh where "xh = double_round X"
  define p where "p = double_round (a * xh)"
  define b where "b = double_round (1 - a)"
  define m where "m = double_round (b * s)"
  define r where "r = double_round (p + m)"
  have r: "blend_d a x s = r"
    by (simp add: blend_d_def r_def m_def b_def p_def xh_def X_def)
  have a0: "0 \<le> a" using a1 by (rule order_trans [rotated]) simp
  have a14: "14 / 2 ^ 53 \<le> a" using a1 by simp
  \<comment> \<open>the five roundings\<close>
  have ex: "\<bar>xh - X\<bar> \<le> (\<bar>X\<bar> + 1) / 2 ^ 53"
    unfolding xh_def by (rule double_round_error)
  have e1: "\<bar>p - a * xh\<bar> \<le> (\<bar>a * xh\<bar> + 1) / 2 ^ 53"
    unfolding p_def by (rule double_round_error)
  have e0: "\<bar>b - (1 - a)\<bar> \<le> (\<bar>1 - a\<bar> + 1) / 2 ^ 53"
    unfolding b_def by (rule double_round_error)
  have e2: "\<bar>m - b * s\<bar> \<le> (\<bar>b * s\<bar> + 1) / 2 ^ 53"
    unfolding m_def by (rule double_round_error)
  have e3: "\<bar>r - (p + m)\<bar> \<le> (\<bar>p + m\<bar> + 1) / 2 ^ 53"
    unfolding r_def by (rule double_round_error)
  \<comment> \<open>the products\<close>
  have axh: "\<bar>a * xh\<bar> \<le> \<bar>xh\<bar>"
    using a0 a2 by (simp add: abs_mult mult_left_le_one_le)
  have axd: "\<bar>a * xh - a * X\<bar> \<le> \<bar>xh - X\<bar>"
  proof -
    have "\<bar>a * xh - a * X\<bar> = a * \<bar>xh - X\<bar>"
      using a0 by (simp add: right_diff_distrib [symmetric] abs_mult)
    also have "\<dots> \<le> 1 * \<bar>xh - X\<bar>" using a2 by (intro mult_right_mono) simp_all
    finally show ?thesis by simp
  qed
  have aX: "\<bar>a * X\<bar> \<le> \<bar>X\<bar>"
    using a0 a2 by (simp add: abs_mult mult_left_le_one_le)
  have b1: "\<bar>b\<bar> \<le> 1" using e0 a0 a2 a14 by (simp add: abs_le_iff) argo
  have bs: "\<bar>b * s\<bar> \<le> \<bar>s\<bar>"
  proof -
    have "\<bar>b * s\<bar> = \<bar>b\<bar> * \<bar>s\<bar>" by (rule abs_mult)
    also have "\<dots> \<le> 1 * \<bar>s\<bar>" using b1 by (intro mult_right_mono) simp_all
    finally show ?thesis by simp
  qed
  have bsd: "\<bar>b * s - (1 - a) * s\<bar> \<le> 2 / 2 ^ 53 * \<bar>s\<bar>"
  proof -
    have "\<bar>b * s - (1 - a) * s\<bar> = \<bar>b - (1 - a)\<bar> * \<bar>s\<bar>"
      by (simp add: left_diff_distrib [symmetric] abs_mult)
    also have "\<dots> \<le> 2 / 2 ^ 53 * \<bar>s\<bar>"
      using e0 a0 a2 by (intro mult_right_mono) simp_all
    finally show ?thesis .
  qed
  have as: "\<bar>(1 - a) * (s - X)\<bar> = (1 - a) * \<bar>s - X\<bar>"
    using a2 by (simp add: abs_mult)
  have dec: "r - X = (r - (p + m)) + (p - a * xh) + (a * xh - a * X)
                     + (m - b * s) + (b * s - (1 - a) * s) + (1 - a) * (s - X)"
    by (simp add: algebra_simps)
  have tri: "\<bar>r - X\<bar> \<le> \<bar>r - (p + m)\<bar> + \<bar>p - a * xh\<bar> + \<bar>a * xh - a * X\<bar>
                     + \<bar>m - b * s\<bar> + \<bar>b * s - (1 - a) * s\<bar> + (1 - a) * \<bar>s - X\<bar>"
    unfolding as [symmetric] by (subst dec) linarith
  \<comment> \<open>sizes of the intermediate values\<close>
  have hxh: "\<bar>xh\<bar> \<le> 2 * \<bar>X\<bar> + 1"
  proof -
    have "(\<bar>X\<bar> + 1) / 2 ^ 53 \<le> \<bar>X\<bar> + 1" by (simp add: field_simps)
    with ex show ?thesis by linarith
  qed
  have hp: "\<bar>p\<bar> \<le> 4 * \<bar>X\<bar> + 3"
  proof -
    have "(\<bar>a * xh\<bar> + 1) / 2 ^ 53 \<le> \<bar>a * xh\<bar> + 1" by (simp add: field_simps)
    with e1 axh hxh show ?thesis by linarith
  qed
  have hm: "\<bar>m\<bar> \<le> 4 * \<bar>s\<bar> + 1"
  proof -
    have "(\<bar>b * s\<bar> + 1) / 2 ^ 53 \<le> \<bar>b * s\<bar> + 1" by (simp add: field_simps)
    with e2 bs show ?thesis by linarith
  qed
  have hs: "\<bar>s\<bar> \<le> \<bar>X\<bar> + \<bar>s - X\<bar>" by linarith
  \<comment> \<open>each error against \<open>X\<close> and the distance\<close>
  have t3: "\<bar>r - (p + m)\<bar> \<le> (4 * \<bar>X\<bar> + 4 * \<bar>s\<bar> + 5) / 2 ^ 53"
  proof -
    have "\<bar>p + m\<bar> + 1 \<le> 4 * \<bar>X\<bar> + 4 * \<bar>s\<bar> + 5" using hp hm by linarith
    then have "(\<bar>p + m\<bar> + 1) / 2 ^ 53 \<le> (4 * \<bar>X\<bar> + 4 * \<bar>s\<bar> + 5) / 2 ^ 53"
      by (rule divide_right_mono) simp
    with e3 show ?thesis by linarith
  qed
  have t1: "\<bar>p - a * xh\<bar> \<le> (2 * \<bar>X\<bar> + 2) / 2 ^ 53"
  proof -
    have "\<bar>a * xh\<bar> + 1 \<le> 2 * \<bar>X\<bar> + 2" using axh hxh by linarith
    then have "(\<bar>a * xh\<bar> + 1) / 2 ^ 53 \<le> (2 * \<bar>X\<bar> + 2) / 2 ^ 53"
      by (rule divide_right_mono) simp
    with e1 show ?thesis by linarith
  qed
  have t2: "\<bar>m - b * s\<bar> \<le> (\<bar>s\<bar> + 1) / 2 ^ 53"
  proof -
    have "\<bar>b * s\<bar> + 1 \<le> \<bar>s\<bar> + 1" using bs by linarith
    then have "(\<bar>b * s\<bar> + 1) / 2 ^ 53 \<le> (\<bar>s\<bar> + 1) / 2 ^ 53"
      by (rule divide_right_mono) simp
    with e2 show ?thesis by linarith
  qed
  have sum: "\<bar>r - X\<bar> \<le> (1 - a) * \<bar>s - X\<bar> + (7 * \<bar>X\<bar> + 7 * \<bar>s\<bar> + 9) / 2 ^ 53"
    using tri t3 t1 axd ex t2 bsd by (simp add: field_simps)
  have "(7 * \<bar>X\<bar> + 7 * \<bar>s\<bar> + 9) / 2 ^ 53
          \<le> (14 * \<bar>X\<bar> + 7 * \<bar>s - X\<bar> + 9) / 2 ^ 53"
    using hs by (intro divide_right_mono) simp_all
  moreover have "7 / 2 ^ 53 * \<bar>s - X\<bar> \<le> a / 2 * \<bar>s - X\<bar>"
    using a14 by (intro mult_right_mono) simp_all
  moreover have "(14 * \<bar>X\<bar> + 9) / 2 ^ 53 \<le> 14 * (\<bar>X\<bar> + 1) / 2 ^ 53"
    by (intro divide_right_mono) simp_all
  ultimately have "\<bar>r - X\<bar> \<le> (1 - a / 2) * \<bar>s - X\<bar> + 14 * (\<bar>X\<bar> + 1) / 2 ^ 53"
    using sum by (simp add: field_simps)
  then show ?thesis by (simp only: r X_def)
qed


lemma geometric_small:
  fixes q c eps :: real
  assumes "0 \<le> q" "q < 1" "0 < eps"
  shows "\<exists>N. \<forall>n\<ge>N. \<bar>q ^ n * c\<bar> < eps"
proof -
  have "0 < eps / (\<bar>c\<bar> + 1)" using assms by simp
  from real_arch_pow_inv [OF this \<open>q < 1\<close>]
  obtain N where N: "q ^ N < eps / (\<bar>c\<bar> + 1)" by blast
  have "\<bar>q ^ n * c\<bar> < eps" if "N \<le> n" for n
  proof -
    have "q ^ n \<le> q ^ N" using that assms by (simp add: power_decreasing)
    then have "q ^ n * \<bar>c\<bar> \<le> q ^ N * \<bar>c\<bar>" by (simp add: mult_right_mono)
    also have "\<dots> \<le> q ^ N * (\<bar>c\<bar> + 1)" using assms by (simp add: mult_left_mono)
    also have "\<dots> < eps" using N by (simp add: pos_less_divide_eq)
    finally show ?thesis using assms by (simp add: abs_mult)
  qed
  then show ?thesis by blast
qed

lemma iterate_bound:
  fixes f :: "real \<Rightarrow> real" and d :: "nat \<Rightarrow> real"
  assumes a: "0 < a" "a \<le> 1" and c: "0 \<le> c"
    and step: "\<And>n. d (Suc n) \<le> (1 - a / 2) * d n + c"
  shows "d n \<le> (1 - a / 2) ^ n * d 0 + 2 * c / a"
proof (induction n)
  case 0
  have "0 \<le> 2 * c / a" using a c by simp
  then show ?case by simp
next
  case (Suc n)
  have rho: "0 \<le> 1 - a / 2" using a by simp
  have "d (Suc n) \<le> (1 - a / 2) * d n + c" by (rule step)
  also have "\<dots> \<le> (1 - a / 2) * ((1 - a / 2) ^ n * d 0 + 2 * c / a) + c"
    using Suc.IH rho by (simp add: mult_left_mono)
  also have "\<dots> = (1 - a / 2) ^ Suc n * d 0 + 2 * c / a"
    using a by (simp add: field_simps)
  finally show ?case .
qed

lemma coordinate_settles:
  fixes d :: "nat \<Rightarrow> real"
  assumes a1: "1 / 2 ^ 49 \<le> a" and a2: "a \<le> 1" and M: "0 \<le> M"
    and step: "\<And>n. d (Suc n) \<le> (1 - a / 2) * d n + 14 * (M + 1) / 2 ^ 53"
  shows "\<exists>N. \<forall>n\<ge>N. d n < (M + 1) / (2 ^ 48 * a)"
proof -
  have a0: "0 < a" using a1 by (rule less_le_trans [rotated]) simp
  define c where "c = 14 * (M + 1) / 2 ^ 53"
  have c0: "0 \<le> c" using M by (simp add: c_def)
  have b: "d n \<le> (1 - a / 2) ^ n * d 0 + 2 * c / a" for n
    using a0 a2 c0 step [folded c_def] by (rule iterate_bound)
  define eps where "eps = 4 * (M + 1) / (2 ^ 53 * a)"
  have eps0: "0 < eps" using M a0 by (simp add: eps_def)
  have tol: "2 * c / a + eps = (M + 1) / (2 ^ 48 * a)"
    using a0 by (simp add: c_def eps_def field_simps)
  have "0 \<le> 1 - a / 2" "1 - a / 2 < 1" using a0 a2 by simp_all
  from geometric_small [OF this eps0, of "d 0"] obtain N where
    N: "\<forall>n\<ge>N. \<bar>(1 - a / 2) ^ n * d 0\<bar> < eps" by blast
  have "d n < (M + 1) / (2 ^ 48 * a)" if "N \<le> n" for n
  proof -
    have "(1 - a / 2) ^ n * d 0 < eps" using N that by (simp add: abs_less_iff)
    with b [of n] have "d n < 2 * c / a + eps" by linarith
    then show ?thesis by (simp only: tol)
  qed
  then show ?thesis by blast
qed

text \<open>
  Claim C6, as the code has it. The filter state is a pair of doubles and each operation of
  the blend rounds. With a blend factor \<open>a\<close> from \<open>2 ^ -49\<close> to 1 and a fixed input
  \<open>(x, y)\<close>, input and starting state of absolute value at most \<open>2 ^ 53\<close>, repeating the
  smoothing step brings each coordinate of the state, from some iteration on, within
  \<open>(\<bar>x\<bar> + 1) / (2 ^ 48 * a)\<close> of the input: a tolerance at the level of the rounding,
  not any positive tolerance.
\<close>

theorem smoothing_settles_near_input:
  assumes a1: "1 / 2 ^ 49 \<le> a" and a2: "a \<le> 1"
    and "\<bar>x\<bar> \<le> 2 ^ 53" and "\<bar>y\<bar> \<le> 2 ^ 53"
    and "\<bar>fst prev\<bar> \<le> 2 ^ 53" and "\<bar>snd prev\<bar> \<le> 2 ^ 53"
  shows "\<exists>N. \<forall>n\<ge>N.
           \<bar>fst (apply_smoothing_d_n a x y n prev) - of_int x\<bar>
             < (\<bar>of_int x\<bar> + 1) / (2 ^ 48 * a)
         \<and> \<bar>snd (apply_smoothing_d_n a x y n prev) - of_int y\<bar>
             < (\<bar>of_int y\<bar> + 1) / (2 ^ 48 * a)"
proof -
  have sx: "\<bar>fst (apply_smoothing_d_n a x y (Suc n) prev) - of_int x\<bar>
      \<le> (1 - a / 2) * \<bar>fst (apply_smoothing_d_n a x y n prev) - of_int x\<bar>
        + 14 * (\<bar>real_of_int x\<bar> + 1) / 2 ^ 53" for n
    using blend_d_contracts [OF a1 a2] by (simp add: apply_smoothing_d_def Let_def)
  have sy: "\<bar>snd (apply_smoothing_d_n a x y (Suc n) prev) - of_int y\<bar>
      \<le> (1 - a / 2) * \<bar>snd (apply_smoothing_d_n a x y n prev) - of_int y\<bar>
        + 14 * (\<bar>real_of_int y\<bar> + 1) / 2 ^ 53" for n
    using blend_d_contracts [OF a1 a2] by (simp add: apply_smoothing_d_def Let_def)
  from coordinate_settles [OF a1 a2, of "\<bar>real_of_int x\<bar>"
      "\<lambda>n. \<bar>fst (apply_smoothing_d_n a x y n prev) - of_int x\<bar>"] sx
  obtain N1 where N1: "\<forall>n\<ge>N1. \<bar>fst (apply_smoothing_d_n a x y n prev) - of_int x\<bar>
             < (\<bar>of_int x\<bar> + 1) / (2 ^ 48 * a)" by auto
  from coordinate_settles [OF a1 a2, of "\<bar>real_of_int y\<bar>"
      "\<lambda>n. \<bar>snd (apply_smoothing_d_n a x y n prev) - of_int y\<bar>"] sy
  obtain N2 where N2: "\<forall>n\<ge>N2. \<bar>snd (apply_smoothing_d_n a x y n prev) - of_int y\<bar>
             < (\<bar>of_int y\<bar> + 1) / (2 ^ 48 * a)" by auto
  have "\<forall>n\<ge>max N1 N2.
           \<bar>fst (apply_smoothing_d_n a x y n prev) - of_int x\<bar>
             < (\<bar>of_int x\<bar> + 1) / (2 ^ 48 * a)
         \<and> \<bar>snd (apply_smoothing_d_n a x y n prev) - of_int y\<bar>
             < (\<bar>of_int y\<bar> + 1) / (2 ^ 48 * a)"
    using N1 N2 by simp
  then show ?thesis by blast
qed

theorem smoothing_settles_near_input_witness:
  "1 / 2 ^ 49 \<le> (1 / 2 :: real) \<and> (1 / 2 :: real) \<le> 1
   \<and> \<bar>10 :: int\<bar> \<le> 2 ^ 53 \<and> \<bar>- 3 :: int\<bar> \<le> 2 ^ 53
   \<and> (\<exists>N. \<forall>n\<ge>N.
          \<bar>fst (apply_smoothing_d_n (1 / 2) 10 (- 3) n (0, 0)) - 10\<bar> < 11 / 2 ^ 47
        \<and> \<bar>snd (apply_smoothing_d_n (1 / 2) 10 (- 3) n (0, 0)) - (- 3)\<bar> < 4 / 2 ^ 47)"
proof -
  have h1: "1 / 2 ^ 49 \<le> (1 / 2 :: real)" by simp
  have h2: "(1 / 2 :: real) \<le> 1" by simp
  have tx: "(\<bar>real_of_int 10\<bar> + 1) / (2 ^ 48 * (1 / 2)) = 11 / 2 ^ 47" by simp
  have ty: "(\<bar>real_of_int (- 3)\<bar> + 1) / (2 ^ 48 * (1 / 2)) = 4 / 2 ^ 47" by simp
  have ix: "real_of_int 10 = 10" by simp
  have iy: "real_of_int (- 3) = - 3" by simp
  have h3: "\<bar>10 :: int\<bar> \<le> 2 ^ 53" by simp
  have h4: "\<bar>- 3 :: int\<bar> \<le> 2 ^ 53" by simp
  have h5: "\<bar>fst (0 :: real, 0 :: real)\<bar> \<le> 2 ^ 53" by simp
  have h6: "\<bar>snd (0 :: real, 0 :: real)\<bar> \<le> 2 ^ 53" by simp
  from smoothing_settles_near_input [OF h1 h2 h3 h4 h5 h6]
  have "\<exists>N. \<forall>n\<ge>N.
          \<bar>fst (apply_smoothing_d_n (1 / 2) 10 (- 3) n (0, 0)) - 10\<bar> < 11 / 2 ^ 47
        \<and> \<bar>snd (apply_smoothing_d_n (1 / 2) 10 (- 3) n (0, 0)) - (- 3)\<bar> < 4 / 2 ^ 47"
    unfolding tx ty unfolding ix iy .
  with h1 h2 h3 h4 show ?thesis by (intro conjI)
qed

subsection \<open>Where the state stops short of the input\<close>

lemma stays_at_fixed_point:
  "snd (apply_smoothing_d a x y p) = p \<Longrightarrow> apply_smoothing_d_n a x y n p = p"
  by (induction n) simp_all

lemma double_round_four_tenths: "double_round (4 / 10) = 3602879701896397 / 2 ^ 53"
  by (subst double_round_down [where m = 2]) (simp_all add: round_half_even_def)

lemma blend_d_default_stalls:
  "blend_d (3602879701896397 / 2 ^ 53) 10 (10 - 1 / 2 ^ 48) = 10 - 1 / 2 ^ 48"
proof -
  define a :: real where "a = 3602879701896397 / 2 ^ 53"
  define b :: real where "b = 5404319552844595 / 2 ^ 53"
  define s :: real where "s = 10 - 1 / 2 ^ 48"
  have r1: "double_round 10 = 10"
    by (subst double_round_up [where n = 3]) (simp_all add: round_half_even_def)
  have r2: "double_round (a * 10) = 4"
    by (subst double_round_up [where n = 2]) (simp_all add: round_half_even_def a_def)
  have r3: "double_round (1 - a) = b"
    by (subst double_round_down [where m = 1]) (simp_all add: round_half_even_def a_def b_def)
  have r4: "double_round (b * s) = 6 - 3 / 2 ^ 50"
    by (subst double_round_up [where n = 2]) (simp_all add: round_half_even_def b_def s_def)
  have r5: "double_round (4 + (6 - 3 / 2 ^ 50)) = s"
    by (subst double_round_up [where n = 3]) (simp_all add: round_half_even_def s_def)
  have "blend_d a 10 s
          = double_round (double_round (a * double_round 10)
                          + double_round (double_round (1 - a) * s))"
    by (simp add: blend_d_def)
  also have "\<dots> = double_round (double_round (a * 10)
                          + double_round (double_round (1 - a) * s))"
    by (simp only: r1)
  also have "\<dots> = double_round (4 + double_round (b * s))"
    by (simp only: r2 r3)
  also have "\<dots> = double_round (4 + (6 - 3 / 2 ^ 50))"
    by (simp only: r4)
  also have "\<dots> = s" by (rule r5)
  finally show ?thesis unfolding a_def s_def .
qed

lemma blend_d_tiny_factor: "blend_d (1 / 2 ^ 60) 10 1 = 1"
proof -
  define a :: real where "a = 1 / 2 ^ 60"
  have r1: "double_round 10 = 10"
    by (subst double_round_up [where n = 3]) (simp_all add: round_half_even_def)
  have r2: "double_round (a * 10) = 10 / 2 ^ 60"
    by (subst double_round_down [where m = 57]) (simp_all add: round_half_even_def a_def)
  have r3: "double_round (1 - a) = 1"
    by (subst double_round_down [where m = 1]) (simp_all add: round_half_even_def a_def)
  have r4: "double_round (1 * 1) = 1"
    by (subst double_round_up [where n = 0]) (simp_all add: round_half_even_def)
  have r5: "double_round (10 / 2 ^ 60 + 1) = 1"
    by (subst double_round_up [where n = 0]) (simp_all add: round_half_even_def)
  have "blend_d a 10 1
          = double_round (double_round (a * double_round 10)
                          + double_round (double_round (1 - a) * 1))"
    by (simp add: blend_d_def)
  also have "\<dots> = double_round (double_round (a * 10) + double_round (1 * 1))"
    by (simp only: r1 r3)
  also have "\<dots> = double_round (10 / 2 ^ 60 + 1)"
    by (simp only: r2 r4)
  also have "\<dots> = 1" by (rule r5)
  finally show ?thesis unfolding a_def .
qed

text \<open>
  The default factor 0.4, the input (10, 10) and the state 10 - 2 ^ -48 in both
  coordinates: the step hands the same state back, so the state never comes within
  \<open>2 ^ -49\<close> of the input.
\<close>

theorem default_factor_stalls:
  "1 / 2 ^ 49 \<le> double_round (4 / 10) \<and> double_round (4 / 10) \<le> 1
   \<and> snd (apply_smoothing_d (double_round (4 / 10)) 10 10 (10 - 1 / 2 ^ 48, 10 - 1 / 2 ^ 48))
       = (10 - 1 / 2 ^ 48, 10 - 1 / 2 ^ 48)
   \<and> \<not> (\<exists>N. \<forall>n\<ge>N.
          \<bar>fst (apply_smoothing_d_n (double_round (4 / 10)) 10 10 n
                  (10 - 1 / 2 ^ 48, 10 - 1 / 2 ^ 48)) - 10\<bar> < 1 / 2 ^ 49)"
proof -
  define a :: real where "a = double_round (4 / 10)"
  define p :: "real \<times> real" where "p = (10 - 1 / 2 ^ 48, 10 - 1 / 2 ^ 48)"
  have a: "a = 3602879701896397 / 2 ^ 53"
    unfolding a_def by (rule double_round_four_tenths)
  have r: "1 / 2 ^ 49 \<le> a" "a \<le> 1" unfolding a by simp_all
  have "snd (apply_smoothing_d a 10 10 p) = (blend_d a 10 (fst p), blend_d a 10 (snd p))"
    by (simp add: apply_smoothing_d_def Let_def)
  also have "\<dots> = p"
    unfolding a p_def fst_conv snd_conv blend_d_default_stalls by (rule refl)
  finally have fp: "snd (apply_smoothing_d a 10 10 p) = p" .
  have st: "apply_smoothing_d_n a 10 10 n p = p" for n
    using fp by (rule stays_at_fixed_point)
  have far: "\<not> \<bar>fst p - 10\<bar> < 1 / 2 ^ 49" by (simp add: p_def)
  have "\<not> (\<exists>N. \<forall>n\<ge>N. \<bar>fst (apply_smoothing_d_n a 10 10 n p) - 10\<bar> < 1 / 2 ^ 49)"
    unfolding st using far by blast
  with r fp show ?thesis unfolding a_def p_def by blast
qed

section \<open>Direction changes: baseline against enhanced\<close>

lemma quotient_sign:
  fixes k :: int and m :: real
  assumes "0 < m"
  shows "(real_of_int k / m < 0) = (k < 0)"
  using assms by (simp add: divide_less_0_iff)

lemma directions_step:
  assumes p: "fst p \<noteq> 0 \<or> snd p \<noteq> 0" and c: "fst c \<noteq> 0 \<or> snd c \<noteq> 0"
  shows "directions (p # c # rest)
     = (of_int (fst p * fst c + snd p * snd c)
         / (calculate_magnitude (fst p) (snd p) * calculate_magnitude (fst c) (snd c)))
       # directions (c # rest)"
proof -
  have "calculate_magnitude (fst p) (snd p) * calculate_magnitude (fst c) (snd c) \<noteq> 0"
    using calculate_magnitude_pos [OF p] calculate_magnitude_pos [OF c] by simp
  with p c show ?thesis by (simp add: Let_def del: of_int_add of_int_mult)
qed

lemma directions_nonzero:
  assumes "\<forall>d\<in>set ds. d \<noteq> (0, 0)"
  shows "length (directions ds) = length ds - 1
       \<and> length (tf_directions ds) = length ds - 1
       \<and> length (filter (\<lambda>d. d < 0) (tf_directions ds))
           = length (filter (\<lambda>d. d < 0) (directions ds))"
  using assms
proof (induction ds rule: directions.induct)
  case (1 p c rest)
  from "1.prems" have p: "fst p \<noteq> 0 \<or> snd p \<noteq> 0" and c: "fst c \<noteq> 0 \<or> snd c \<noteq> 0"
    by (auto simp: prod_eq_iff)
  have mp: "0 < calculate_magnitude (fst p) (snd p) * calculate_magnitude (fst c) (snd c)"
    using calculate_magnitude_pos [OF p] calculate_magnitude_pos [OF c] by simp
  have sgn: "(real_of_int (fst p * fst c + snd p * snd c)
               / (calculate_magnitude (fst p) (snd p) * calculate_magnitude (fst c) (snd c)) < 0)
             = (fst p * fst c + snd p * snd c < 0)"
    using mp by (rule quotient_sign)
  from "1.prems" have "\<forall>d\<in>set (c # rest). d \<noteq> (0, 0)" by simp
  from "1.IH" [OF this]
  have ih: "length (directions (c # rest)) = length (c # rest) - 1"
      "length (tf_directions (c # rest)) = length (c # rest) - 1"
      "length (filter (\<lambda>d. d < 0) (tf_directions (c # rest)))
           = length (filter (\<lambda>d. d < 0) (directions (c # rest)))"
    by simp_all
  have tf: "tf_directions (p # c # rest)
      = (fst p * fst c + snd p * snd c) # tf_directions (c # rest)"
    using p by simp
  show ?case
    unfolding directions_step [OF p c] tf using ih sgn by simp
qed simp_all

text \<open>
  Claim C10. On a window whose deltas are all non-zero, the baseline loop and the enhanced
  loop evaluate the same number of pairs (every consecutive pair), the baseline's count of
  negative dot products equals the enhanced count of negative cosines, and the baseline
  test \<^verbatim>\<open>direction_changes > len(directions) * 0.4\<close> agrees with the enhanced test of the
  ratio against the threshold 0.4.
\<close>

theorem direction_changes_agree:
  assumes "\<forall>d\<in>set ds. d \<noteq> (0, 0)"
  shows "length (tf_directions ds) = length (directions ds)
       \<and> length (directions ds) = length ds - 1
       \<and> length (filter (\<lambda>d. d < 0) (tf_directions ds))
           = length (filter (\<lambda>d. d < 0) (directions ds))
       \<and> tf_directional ds = (direction_change_ratio ds > 4 / 10)"
proof -
  note h = directions_nonzero [OF assms]
  have l: "length (tf_directions ds) = length (directions ds)" using h by simp
  have f: "length (filter (\<lambda>d. d < 0) (tf_directions ds))
           = length (filter (\<lambda>d. d < 0) (directions ds))" using h by simp
  have "tf_directional ds = (direction_change_ratio ds > 4 / 10)"
  proof (cases "directions ds = []")
    case True
    with l show ?thesis
      by (simp add: tf_directional_def direction_change_ratio_def Let_def)
  next
    case False
    then have "0 < real (length (directions ds))" by simp
    then show ?thesis
      unfolding tf_directional_def direction_change_ratio_def Let_def l f
      using False by (simp add: pos_less_divide_eq mult.commute)
  qed
  moreover have "length (directions ds) = length ds - 1" using h by (rule conjunct1)
  ultimately show ?thesis using l f by (simp only: simp_thms)
qed

theorem direction_changes_agree_witness:
  "length (tf_directions [(5, 0), (-5, 0), (3, 4)]) = 2
   \<and> length (directions [(5, 0), (-5, 0), (3, 4)]) = 2
   \<and> length (filter (\<lambda>d. d < 0) (tf_directions [(5, 0), (-5, 0), (3, 4)])) = 2
   \<and> length (filter (\<lambda>d. d < 0) (directions [(5, 0), (-5, 0), (3, 4)])) = 2
   \<and> tf_directional [(5, 0), (-5, 0), (3, 4)]
   \<and> direction_change_ratio [(5, 0), (-5, 0), (3, 4)] > 4 / 10"
proof -
  define L :: "(int \<times> int) list" where "L = [(5, 0), (-5, 0), (3, 4)]"
  have h: "\<forall>d\<in>set L. d \<noteq> (0, 0)" by (simp add: L_def)
  have t: "tf_directions L = [-25, -15]" by (simp add: L_def)
  have l2: "length (tf_directions L) = 2" unfolding t by simp
  have f2: "length (filter (\<lambda>d. d < 0) (tf_directions L)) = 2" unfolding t by simp
  have d: "tf_directional L" unfolding tf_directional_def Let_def t by simp
  note th = direction_changes_agree [OF h]
  from th have a1: "length (tf_directions L) = length (directions L)" by (rule conjunct1)
  from th
  have a3: "length (filter (\<lambda>d. d < 0) (tf_directions L))
              = length (filter (\<lambda>d. d < 0) (directions L))"
    by (rule conjunct1 [OF conjunct2 [OF conjunct2]])
  from th have a4: "tf_directional L = (direction_change_ratio L > 4 / 10)"
    by (rule conjunct2 [OF conjunct2 [OF conjunct2]])
  have b1: "length (directions L) = 2" using a1 l2 by (rule trans [OF sym])
  have b3: "length (filter (\<lambda>d. d < 0) (directions L)) = 2" using a3 f2 by (rule trans [OF sym])
  have b4: "direction_change_ratio L > 4 / 10" using a4 d by (rule iffD1)
  from l2 b1 f2 b3 d b4 show ?thesis unfolding L_def by (intro conjI)
qed

section \<open>Records of the serial link that do not parse\<close>

lemma split_comma_plain: "CHR '','' \<notin> set w \<Longrightarrow> split_comma w = [w]"
  by (induction w) auto

lemma split_comma_field:
  "CHR '','' \<notin> set w \<Longrightarrow> split_comma (w @ CHR '','' # rest) = w # split_comma rest"
  by (induction w) auto

lemma split_motion:
  assumes "CHR '','' \<notin> set a" "CHR '','' \<notin> set b"
  shows "split_comma (''M,'' @ a @ '','' @ b) = [''M'', a, b]"
proof -
  have "split_comma (''M'' @ CHR '','' # (a @ CHR '','' # b))
          = ''M'' # split_comma (a @ CHR '','' # b)"
    by (rule split_comma_field) simp
  also have "split_comma (a @ CHR '','' # b) = a # split_comma b"
    using assms(1) by (rule split_comma_field)
  also have "split_comma b = [b]" using assms(2) by (rule split_comma_plain)
  finally show ?thesis by simp
qed

text \<open>
  What \<^verbatim>\<open>int()\<close> rejects: a field that ends in the separator 0x1C, a field with a
  letter, an empty field, and under the default limit a field of 4301 digits. A field of
  4300 digits, a field of 4301 digits when there is no limit, and a field padded with
  spaces parse.
\<close>

lemma digits_of_replicate:
  assumes "is_digit c" and "0 < n"
  shows "digits_of m (replicate n c)
           = (if 640 < n \<and> 0 < m \<and> m < n then None else parse_digits (replicate n c) False 0)"
  using assms by (simp add: digits_of_def)

lemma parse_digits_zeros:
  "parse_digits (replicate n CHR ''0'') True acc = Some (acc * 10 ^ n)"
  by (induction n arbitrary: acc) (simp_all add: is_digit_def)

lemma int_of_str_replicate:
  assumes "is_digit c" and "0 < n"
  shows "int_of_str m (replicate n c) = map_option int (digits_of m (replicate n c))"
proof -
  from assms(2) obtain k where n: "n = Suc k" by (cases n) auto
  have c: "\<not> is_space c" "c \<noteq> CHR ''-''" "c \<noteq> CHR ''+''"
    using assms(1) by (auto simp: is_digit_def is_space_def)
  have "dropWhile is_space (replicate n c) = replicate n c"
    using c(1) by (simp add: n)
  then have "py_strip (replicate n c) = replicate n c"
    using c(1) by (simp add: py_strip_def n del: replicate.simps)
  then show ?thesis using c by (simp add: int_of_str_def n)
qed

lemma int_of_str_examples:
  "int_of_str default_max_str_digits [CHR ''5'', CHR 0x1C] = None"
  "int_of_str default_max_str_digits ''4x'' = None"
  "int_of_str default_max_str_digits [] = None"
  "int_of_str default_max_str_digits '' -1_2 '' = Some (- 12)"
  by (simp_all add: int_of_str_def digits_of_def py_strip_def is_space_def is_digit_def)

lemma parse_digits_leading_zeros:
  "0 < n \<Longrightarrow> parse_digits (replicate n CHR ''0'') False 0 = Some 0"
  by (cases n) (simp_all add: is_digit_def parse_digits_zeros)

lemma int_of_str_digit_limit:
  "int_of_str default_max_str_digits (replicate 4301 CHR ''0'') = None"
  "int_of_str default_max_str_digits (replicate 4300 CHR ''0'') = Some 0"
  "int_of_str 0 (replicate 4301 CHR ''0'') = Some 0"
proof -
  have d: "is_digit CHR ''0''" by (simp add: is_digit_def)
  show "int_of_str default_max_str_digits (replicate 4301 CHR ''0'') = None"
    by (simp add: int_of_str_replicate [OF d] digits_of_replicate [OF d]
        default_max_str_digits_def)
  show "int_of_str default_max_str_digits (replicate 4300 CHR ''0'') = Some 0"
    by (simp add: int_of_str_replicate [OF d] digits_of_replicate [OF d]
        default_max_str_digits_def parse_digits_leading_zeros)
  show "int_of_str 0 (replicate 4301 CHR ''0'') = Some 0"
    by (simp add: int_of_str_replicate [OF d] digits_of_replicate [OF d]
        parse_digits_leading_zeros)
qed

text \<open>
  Claim C8. A line \<^verbatim>\<open>M,<a>,<b>\<close> (two comma-free fields) in which \<^verbatim>\<open>int()\<close> rejects
  \<open>a\<close> or \<open>b\<close> leaves every global as it was and prints the line in an error message;
  the loop then goes on with the records that follow, from the unchanged state. This holds
  whatever the digit limit of the interpreter is.
\<close>

theorem unparseable_motion_discarded:
  assumes "CHR '','' \<notin> set a" and "CHR '','' \<notin> set b"
    and "int_of_str m a = None \<or> int_of_str m b = None"
  shows "process_line m (''M,'' @ a @ '','' @ b) s
           = (s, [Print (''Error parsing movement data: '' @ ''M,'' @ a @ '','' @ b)])
       \<and> process_data m ((''M,'' @ a @ '','' @ b) # rest) s
           = (fst (process_data m rest s),
              Print (''Error parsing movement data: '' @ ''M,'' @ a @ '','' @ b)
                # snd (process_data m rest s))"
proof -
  have pl: "process_line m (''M,'' @ a @ '','' @ b) s
           = (s, [Print (''Error parsing movement data: '' @ ''M,'' @ a @ '','' @ b)])"
    using assms(3)
    unfolding process_line_def Let_def split_motion [OF assms(1,2)]
    by (auto split: option.splits)
  then show ?thesis by (simp add: split_beta)
qed

text \<open>
  The record \<^verbatim>\<open>M,5\x1c,7\<close>, whose first field ends in the file separator 0x1C, is
  discarded under the default limit, and the record after it is processed.
\<close>

theorem unparseable_motion_discarded_witness:
  "int_of_str default_max_str_digits [CHR ''5'', CHR 0x1C] = None
   \<and> process_line default_max_str_digits (''M,'' @ [CHR ''5'', CHR 0x1C] @ '','' @ ''7'')
         tf_initial_state
       = (tf_initial_state,
          [Print (''Error parsing movement data: '' @ ''M,'' @ [CHR ''5'', CHR 0x1C] @ '','' @ ''7'')])
   \<and> process_data default_max_str_digits
         [''M,'' @ [CHR ''5'', CHR 0x1C] @ '','' @ ''7'', ''E,late''] tf_initial_state
       = (tf_initial_state,
          [Print (''Error parsing movement data: '' @ ''M,'' @ [CHR ''5'', CHR 0x1C] @ '','' @ ''7''),
           Print ''Error from Arduino: late''])"
proof -
  have h: "int_of_str default_max_str_digits [CHR ''5'', CHR 0x1C] = None"
    by (simp add: int_of_str_def digits_of_def py_strip_def is_space_def is_digit_def)
  have r: "process_data default_max_str_digits [''E,late''] tf_initial_state
            = (tf_initial_state, [Print ''Error from Arduino: late''])"
    by (simp add: process_line_def Let_def)
  from unparseable_motion_discarded
         [of "[CHR ''5'', CHR 0x1C]" "''7''" default_max_str_digits tf_initial_state
             "[''E,late'']"] h r
  show ?thesis by simp
qed

section \<open>Samples with a zero delta\<close>

text \<open>
  In the enhanced polling loop a poll that finds the cursor where the last one left it
  changes nothing and emits nothing.
\<close>

lemma monitor_step_zero_delta:
  "monitor_step cfg (last_real_x s) (last_real_y s) now s = (s, None)"
  by (simp add: monitor_step_def)

text \<open>
  Claim C7 fails in the serial variant. The record \<^verbatim>\<open>M,0,0\<close> parses to the delta (0, 0),
  and \<^verbatim>\<open>process_data\<close> hands it to \<^verbatim>\<open>detect_tremor\<close> before it looks at the values: the
  zero delta is appended to the window. Only the cursor move is skipped.
\<close>

theorem serial_zero_delta_enters_window:
  "mouse_history (fst (process_line m ''M,0,0'' s))
     = deque_append TF_SAMPLE_SIZE (mouse_history s) (0, 0)"
proof -
  have sp: "split_comma ''M,0,0'' = [''M'', ''0'', ''0'']" by simp
  have z: "int_of_str m ''0'' = Some 0"
    by (simp add: int_of_str_def digits_of_def py_strip_def is_space_def is_digit_def)
  have h: "mouse_history (snd (tf_detect_tremor 0 0 s))
             = deque_append TF_SAMPLE_SIZE (mouse_history s) (0, 0)"
    by (simp add: tf_detect_tremor_def Let_def)
  show ?thesis
    unfolding process_line_def Let_def sp using h
    by (simp add: z split_beta tf_apply_smoothing_def Let_def)
qed

theorem serial_zero_delta_enters_window_witness:
  "process_line default_max_str_digits ''M,0,0'' tf_initial_state
     = (tf_initial_state\<lparr> mouse_history := [(0, 0)] \<rparr>, [])
   \<and> mouse_history (fst (process_line default_max_str_digits ''M,0,0'' tf_initial_state))
       = [(0, 0)]"
  using serial_zero_delta_enters_window [of default_max_str_digits tf_initial_state]
  by (simp add: process_line_def int_of_str_def digits_of_def py_strip_def is_space_def
      is_digit_def
      tf_detect_tremor_def deque_append_def TF_SAMPLE_SIZE_def tf_initial_state_def Let_def)

section \<open>Toggling stabilization\<close>

lemma monitor_step_disabled:
  "\<not> stabilization_active s \<Longrightarrow>
     monitor_step cfg x y now s = (s\<lparr> last_real_x := x, last_real_y := y \<rparr>, None)"
  by (simp add: monitor_step_def)

lemma run_events_append:
  "run_events cfg (es @ fs) s =
     (fst (run_events cfg fs (fst (run_events cfg es s))),
      snd (run_events cfg es s) @ snd (run_events cfg fs (fst (run_events cfg es s))))"
  by (induction es arbitrary: s) (simp_all add: split_beta)

lemma disabled_polls:
  "\<not> stabilization_active s \<Longrightarrow>
     \<exists>a b. run_events cfg (map poll ps) s
            = (s\<lparr> last_real_x := a, last_real_y := b \<rparr>, replicate (length ps) None)"
proof (induction ps arbitrary: s)
  case Nil
  have "s = s\<lparr> last_real_x := last_real_x s, last_real_y := last_real_y s \<rparr>" by simp
  then show ?case by (metis list.simps(8) list.size(3) replicate_0 run_events.simps(1))
next
  case (Cons p ps)
  let ?s1 = "s\<lparr> last_real_x := fst p, last_real_y := fst (snd p) \<rparr>"
  have step: "handle_event cfg (poll p) s = (?s1, None)"
    using Cons.prems by (simp add: poll_def monitor_step_disabled)
  have "\<not> stabilization_active ?s1" using Cons.prems by simp
  from Cons.IH [OF this] obtain a b where
    r: "run_events cfg (map poll ps) ?s1
          = (?s1\<lparr> last_real_x := a, last_real_y := b \<rparr>, replicate (length ps) None)"
    by blast
  have "run_events cfg (map poll (p # ps)) s
          = (s\<lparr> last_real_x := a, last_real_y := b \<rparr>, replicate (length (p # ps)) None)"
    by (simp add: step r)
  then show ?case by blast
qed

lemma detect_tremor_keeps_filter:
  "last_x (snd (detect_tremor cfg dx dy x y now s)) = last_x s"
  "last_y (snd (detect_tremor cfg dx dy x y now s)) = last_y s"
  by (simp_all add: detect_tremor_def push_sample_def Let_def)

lemma monitor_step_correction:
  assumes "snd (monitor_step cfg x y now s) = Some out"
  shows "out = (py_int (adaptive_factor cfg (fst (monitor_step cfg x y now s)) * of_int x
                  + (1 - adaptive_factor cfg (fst (monitor_step cfg x y now s))) * last_x s),
                py_int (adaptive_factor cfg (fst (monitor_step cfg x y now s)) * of_int y
                  + (1 - adaptive_factor cfg (fst (monitor_step cfg x y now s))) * last_y s))"
proof -
  define s1 where "s1 = s\<lparr> last_real_x := x, last_real_y := y \<rparr>"
  define dx where "dx = x - last_real_x s"
  define dy where "dy = y - last_real_y s"
  define s3 where "s3 = (snd (detect_tremor cfg dx dy x y now s1))
                          \<lparr> tremor_detected := fst (detect_tremor cfg dx dy x y now s1) \<rparr>"
  have ms: "monitor_step cfg x y now s =
     (if (dx \<noteq> 0 \<or> dy \<noteq> 0) \<and> stabilization_active s1 then
        (if fst (detect_tremor cfg dx dy x y now s1) then
           ((snd (apply_adaptive_smoothing cfg x y s3))
              \<lparr> last_real_x := fst (fst (apply_adaptive_smoothing cfg x y s3)),
                 last_real_y := snd (fst (apply_adaptive_smoothing cfg x y s3)) \<rparr>,
            Some (fst (apply_adaptive_smoothing cfg x y s3)))
         else (s3, None))
      else (s1, None))"
    by (simp add: monitor_step_def Let_def split_beta s1_def dx_def dy_def s3_def)
  have lx: "last_x s3 = last_x s" "last_y s3 = last_y s"
    by (simp_all add: s3_def s1_def detect_tremor_keeps_filter)
  from assms have
    out: "out = fst (apply_adaptive_smoothing cfg x y s3)"
    and fin: "fst (monitor_step cfg x y now s) =
       (snd (apply_adaptive_smoothing cfg x y s3))
              \<lparr> last_real_x := fst (fst (apply_adaptive_smoothing cfg x y s3)),
                 last_real_y := snd (fst (apply_adaptive_smoothing cfg x y s3)) \<rparr>"
    unfolding ms by (auto split: if_splits)
  have af: "adaptive_factor cfg (fst (monitor_step cfg x y now s)) = adaptive_factor cfg s3"
    unfolding fin by (simp add: adaptive_factor_def apply_adaptive_smoothing_def Let_def)
  show ?thesis
    unfolding af out by (simp add: apply_adaptive_smoothing_def Let_def lx)
qed

text \<open>
  Claim C1, as the code has it. Polls that arrive while stabilization is off, followed by the
  toggle back on, emit nothing and leave the filter state and the three histories exactly as
  they were before: the toggle flips the flag and re-seeds nothing. A correction emitted by
  the next poll is therefore the truncated blend of the raw position with that old filter
  state.
\<close>

theorem toggle_keeps_stale_filter_state:
  assumes "\<not> stabilization_active s"
  shows "stabilization_active (fst (run_events cfg (map poll ps @ [Toggle]) s))
       \<and> last_x (fst (run_events cfg (map poll ps @ [Toggle]) s)) = last_x s
       \<and> last_y (fst (run_events cfg (map poll ps @ [Toggle]) s)) = last_y s
       \<and> delta_history (fst (run_events cfg (map poll ps @ [Toggle]) s)) = delta_history s
       \<and> position_history (fst (run_events cfg (map poll ps @ [Toggle]) s)) = position_history s
       \<and> timestamp_history (fst (run_events cfg (map poll ps @ [Toggle]) s))
           = timestamp_history s
       \<and> snd (run_events cfg (map poll ps @ [Toggle]) s) = replicate (Suc (length ps)) None
       \<and> (\<forall>x y now out.
            snd (monitor_step cfg x y now (fst (run_events cfg (map poll ps @ [Toggle]) s)))
              = Some out \<longrightarrow>
            out = (py_int (adaptive_factor cfg (fst (monitor_step cfg x y now
                             (fst (run_events cfg (map poll ps @ [Toggle]) s)))) * of_int x
                     + (1 - adaptive_factor cfg (fst (monitor_step cfg x y now
                             (fst (run_events cfg (map poll ps @ [Toggle]) s))))) * last_x s),
                   py_int (adaptive_factor cfg (fst (monitor_step cfg x y now
                             (fst (run_events cfg (map poll ps @ [Toggle]) s)))) * of_int y
                     + (1 - adaptive_factor cfg (fst (monitor_step cfg x y now
                             (fst (run_events cfg (map poll ps @ [Toggle]) s))))) * last_y s)))"
proof -
  from disabled_polls [OF assms, of cfg ps] obtain a b where
    r: "run_events cfg (map poll ps) s
          = (s\<lparr> last_real_x := a, last_real_y := b \<rparr>, replicate (length ps) None)"
    by blast
  define s' where "s' = fst (run_events cfg (map poll ps @ [Toggle]) s)"
  have s': "s' = toggle_stabilization (s\<lparr> last_real_x := a, last_real_y := b \<rparr>)"
    by (simp add: s'_def run_events_append r)
  have outs: "snd (run_events cfg (map poll ps @ [Toggle]) s) = replicate (Suc (length ps)) None"
    by (simp add: run_events_append r replicate_append_same)
  have keep: "stabilization_active s'" "last_x s' = last_x s" "last_y s' = last_y s"
      "delta_history s' = delta_history s" "position_history s' = position_history s"
      "timestamp_history s' = timestamp_history s"
    using assms by (simp_all add: s' toggle_stabilization_def)
  have next_out: "out = (py_int (adaptive_factor cfg (fst (monitor_step cfg x y now s')) * of_int x
                     + (1 - adaptive_factor cfg (fst (monitor_step cfg x y now s'))) * last_x s),
                   py_int (adaptive_factor cfg (fst (monitor_step cfg x y now s')) * of_int y
                     + (1 - adaptive_factor cfg (fst (monitor_step cfg x y now s'))) * last_y s))"
    if "snd (monitor_step cfg x y now s') = Some out" for x y now out
    using monitor_step_correction [OF that] by (simp only: keep)
  show ?thesis
    unfolding s'_def [symmetric] using keep outs next_out by blast
qed

theorem toggle_keeps_stale_filter_state_witness:
  "\<not> stabilization_active (toggle_stabilization (monitor_init 1000 1000 initial_state))
   \<and> stabilization_active (fst (run_events default_config
        (map poll [(1500, 1200, 1), (1600, 1200, 2)] @ [Toggle])
        (toggle_stabilization (monitor_init 1000 1000 initial_state))))
   \<and> last_x (fst (run_events default_config
        (map poll [(1500, 1200, 1), (1600, 1200, 2)] @ [Toggle])
        (toggle_stabilization (monitor_init 1000 1000 initial_state)))) = 0
   \<and> last_real_x (fst (run_events default_config
        (map poll [(1500, 1200, 1), (1600, 1200, 2)] @ [Toggle])
        (toggle_stabilization (monitor_init 1000 1000 initial_state)))) = 1600
   \<and> snd (run_events default_config
        (map poll [(1500, 1200, 1), (1600, 1200, 2)] @ [Toggle])
        (toggle_stabilization (monitor_init 1000 1000 initial_state))) = [None, None, None]"
proof -
  have h: "\<not> stabilization_active (toggle_stabilization (monitor_init 1000 1000 initial_state))"
    by (simp add: toggle_stabilization_def monitor_init_def initial_state_def)
  have r: "last_real_x (fst (run_events default_config
        (map poll [(1500, 1200, 1), (1600, 1200, 2)] @ [Toggle])
        (toggle_stabilization (monitor_init 1000 1000 initial_state)))) = 1600"
    by (simp add: poll_def monitor_step_def toggle_stabilization_def monitor_init_def
        initial_state_def)
  have i: "last_x (toggle_stabilization (monitor_init 1000 1000 initial_state)) = 0"
    by (simp add: toggle_stabilization_def monitor_init_def initial_state_def)
  note t = toggle_keeps_stale_filter_state
    [OF h, of default_config "[(1500, 1200, 1), (1600, 1200, 2)]"]
  from t have a: "stabilization_active (fst (run_events default_config
        (map poll [(1500, 1200, 1), (1600, 1200, 2)] @ [Toggle])
        (toggle_stabilization (monitor_init 1000 1000 initial_state))))"
    by (rule conjunct1)
  from t have b: "last_x (fst (run_events default_config
        (map poll [(1500, 1200, 1), (1600, 1200, 2)] @ [Toggle])
        (toggle_stabilization (monitor_init 1000 1000 initial_state))))
      = last_x (toggle_stabilization (monitor_init 1000 1000 initial_state))"
    by (rule conjunct1 [OF conjunct2])
  from t have c: "snd (run_events default_config
        (map poll [(1500, 1200, 1), (1600, 1200, 2)] @ [Toggle])
        (toggle_stabilization (monitor_init 1000 1000 initial_state)))
      = replicate (Suc (length [(1500 :: int, 1200 :: int, 1 :: real), (1600, 1200, 2)])) None"
    by (rule conjunct1 [OF conjunct2 [OF conjunct2 [OF conjunct2 [OF conjunct2
          [OF conjunct2 [OF conjunct2]]]]]])
  have c': "replicate (Suc (length [(1500 :: int, 1200 :: int, 1 :: real), (1600, 1200, 2)]))
              (None :: (int \<times> int) option) = [None, None, None]"
    by simp
  from h a b [unfolded i] r c [unfolded c'] show ?thesis by (intro conjI)
qed

text \<open>
  The cursor rests at (1000, 1000) and the filter state is (0, 0). Stabilization is switched
  off and on again; the filter state is still (0, 0). The cursor then shakes, and the first
  correction, for the raw position (1000, 1000), is (240, 240).
\<close>

theorem toggle_does_not_reseed:
  "stabilization_active
     (toggle_stabilization (toggle_stabilization (monitor_init 1000 1000 initial_state)))
   \<and> last_real_x
     (toggle_stabilization (toggle_stabilization (monitor_init 1000 1000 initial_state))) = 1000
   \<and> last_real_y
     (toggle_stabilization (toggle_stabilization (monitor_init 1000 1000 initial_state))) = 1000
   \<and> last_x
     (toggle_stabilization (toggle_stabilization (monitor_init 1000 1000 initial_state))) = 0
   \<and> last_y
     (toggle_stabilization (toggle_stabilization (monitor_init 1000 1000 initial_state))) = 0
   \<and> last shake_events = Poll 1000 1000 12
   \<and> snd (run_events default_config shake_events (monitor_init 1000 1000 initial_state))
       = [None, None, None, None, None, None, None, None, None, None, None, None, None,
          Some (240, 240)]"
  by (simp add: shake_events_def monitor_step_def toggle_stabilization_def monitor_init_def
      apply_adaptive_smoothing_def adaptive_factor_def py_int_def detect_tremor_def
      push_sample_def deque_append_def tremor_scores_def detected_types_def np_mean_def
      np_std_def calculate_frequency_def calculate_jitter_def direction_change_ratio_def
      FREQUENCY_WINDOW_def HISTORY_MAXLEN_def default_config_def Let_def
      calculate_magnitude_axis initial_state_def)

end
